theory Spec2Isabelle
  imports Main
begin

section \<open>Python values, exceptions and the outside world\<close>

text \<open>
  The repository is a retrieval-augmented tutor: \<^verbatim>\<open>document_processor.py\<close> builds a FAISS
  index from a PDF, \<^verbatim>\<open>rag_system.py\<close> answers questions through a RetrievalQA chain, and
  \<^verbatim>\<open>app.py\<close> is the Streamlit page around both. The libraries it calls (pypdf, langchain,
  FAISS, Groq, Streamlit) are collaborators: their behaviour is a parameter of the model
  (the record \<open>collaborators\<close>), universally quantified in every theorem, and every
  call to one of them is appended to a log in the world state.

  A Python \<^verbatim>\<open>str\<close> is a \<open>string\<close>; a \<open>char\<close> stands for one character (the code points
  below 256). An exception object is \<open>PyException m\<close>, where \<open>m\<close> is what \<^verbatim>\<open>str(e)\<close> gives;
  it stands for an instance of any subclass of \<^verbatim>\<open>Exception\<close>, the class every handler of
  the repository names. A Python function is modelled as a function that returns an
  outcome (\<open>Inl e\<close>: it raised \<open>e\<close>; \<open>Inr v\<close>: it returned \<open>v\<close>) together with the state it
  leaves behind.
\<close>

datatype py_exception = PyException (str: string)

type_synonym 'a outcome = "py_exception + 'a"

datatype document = Document (page_content: string)

datatype hf_embeddings = HuggingFaceEmbeddings (model_name: string) (device: string)

text \<open>A FAISS store is opaque to the repository; the model keeps the segments it indexes.\<close>

datatype faiss = FAISS (docstore: "document list")

text \<open>The language model object: its key and model name (its temperature is a constant).\<close>

datatype chat_groq = ChatGroq (groq_api_key: string) (llm_model_name: string)

text \<open>
  The chain built by \<^verbatim>\<open>RetrievalQA.from_chain_type\<close>: its language model, the store behind its
  retriever and the retriever's \<^verbatim>\<open>k\<close>. The prompt template is a constant of the source.
\<close>

datatype retrieval_qa = RetrievalQA (chain_llm: chat_groq) (chain_store: faiss) (chain_k: int)

text \<open>
  The dictionary a chain call returns; a key may be absent (\<open>None\<close>), since the source reads
  \<^verbatim>\<open>result["result"]\<close> and \<^verbatim>\<open>result.get("source_documents", [])\<close>.
\<close>

record qa_result =
  result_key :: "string option"
  source_documents_key :: "document list option"

datatype groq_client = Groq (client_api_key: string)

type_synonym filesystem = "string \<Rightarrow> string option"

datatype call =
    Call_HuggingFaceEmbeddings
  | Call_PdfReader string
  | Call_extract_text nat
  | Call_split_text int int string
  | Call_FAISS_from_documents "document list"
  | Call_FAISS_save_local faiss string
  | Call_FAISS_load_local string
  | Call_similarity_search faiss string int
  | Call_ChatGroq string
  | Call_RetrievalQA_from_chain_type chat_groq faiss
  | Call_qa_chain retrieval_qa string

text \<open>What Streamlit is asked to render during one run of the script (static markup left out).\<close>

datatype ui_event =
    St_warning string
  | St_error string
  | St_success string
  | St_markdown string
  | St_metric_questions_asked nat
  | St_metric_vector_store_status bool
  | St_topic string
  | St_expander string string string

record world =
  fs :: filesystem
  stdout :: "string list"
  calls :: "call list"
  page :: "ui_event list"

text \<open>
  The collaborators. Each field is the behaviour of one library entry point: whether it
  raises, and what it returns. \<open>pdf_reader\<close> gives, for a path, either the exception of
  \<^verbatim>\<open>PdfReader(path)\<close> or the pages, each page being the outcome of its \<^verbatim>\<open>extract_text()\<close>.
  \<open>faiss_save_local\<close> may change the file system in any way, also when it raises.
\<close>

record collaborators =
  hf_embeddings_init :: "py_exception option"
  pdf_reader :: "string \<Rightarrow> (py_exception + string) list outcome"
  splitter_split_text :: "int \<Rightarrow> int \<Rightarrow> string \<Rightarrow> string list outcome"
  faiss_from_documents :: "document list \<Rightarrow> hf_embeddings \<Rightarrow> faiss outcome"
  faiss_save_local :: "faiss \<Rightarrow> string \<Rightarrow> filesystem \<Rightarrow> py_exception option \<times> filesystem"
  faiss_load_local :: "string \<Rightarrow> hf_embeddings \<Rightarrow> filesystem \<Rightarrow> faiss outcome"
  faiss_similarity_search :: "faiss \<Rightarrow> string \<Rightarrow> int \<Rightarrow> document list outcome"
  chat_groq_init :: "string \<Rightarrow> py_exception option"
  retrieval_qa_from_chain_type :: "chat_groq \<Rightarrow> faiss \<Rightarrow> py_exception option"
  retrieval_qa_call :: "retrieval_qa \<Rightarrow> string \<Rightarrow> qa_result outcome"

definition print :: "string \<Rightarrow> world \<Rightarrow> world" where
  "print line w = w\<lparr>stdout := stdout w @ [line]\<rparr>"

definition log_call :: "call \<Rightarrow> world \<Rightarrow> world" where
  "log_call c w = w\<lparr>calls := calls w @ [c]\<rparr>"

definition render :: "ui_event \<Rightarrow> world \<Rightarrow> world" where
  "render ev w = w\<lparr>page := page w @ [ev]\<rparr>"

definition os_path_exists :: "string \<Rightarrow> world \<Rightarrow> bool" where
  "os_path_exists p w = (fs w p \<noteq> None)"

text \<open>
  \<^verbatim>\<open>try: body  except Exception as e: handler\<close>. The body has already run: it is the pair of
  its outcome and the state it left, and the handler starts from that state.
\<close>

definition try_except :: "'a outcome \<times> 's \<Rightarrow> (py_exception \<Rightarrow> 's \<Rightarrow> 'a outcome \<times> 's) \<Rightarrow> 'a outcome \<times> 's" where
  "try_except body handler =
     (case body of (Inr v, s) \<Rightarrow> (Inr v, s) | (Inl e, s) \<Rightarrow> handler e s)"

text \<open>\<^verbatim>\<open>str(n)\<close> for a non-negative and for any integer.\<close>

function str_nat :: "nat \<Rightarrow> string" where
  "str_nat n = (if n < 10 then [char_of (48 + n)]
                else str_nat (n div 10) @ [char_of (48 + n mod 10)])"
  by pat_completeness auto
termination
  by (relation "measure id") auto

definition str_int :: "int \<Rightarrow> string" where
  "str_int i = (if i < 0 then CHR ''-'' # str_nat (nat (- i)) else str_nat (nat i))"

section \<open>document\_processor.py: class DocumentProcessor\<close>

record document_processor =
  pdf_path :: string
  chunk_size :: int
  chunk_overlap :: int
  dp_embeddings :: hf_embeddings
  dp_vector_store :: "faiss option"

definition new_embeddings :: "collaborators \<Rightarrow> world \<Rightarrow> hf_embeddings outcome \<times> world" where
  "new_embeddings c w =
     (let w1 = log_call Call_HuggingFaceEmbeddings w in
      case hf_embeddings_init c of
        Some e \<Rightarrow> (Inl e, w1)
      | None \<Rightarrow> (Inr (HuggingFaceEmbeddings ''sentence-transformers/all-MiniLM-L6-v2'' ''cpu''), w1))"

definition DocumentProcessor_init ::
  "collaborators \<Rightarrow> string \<Rightarrow> int \<Rightarrow> int \<Rightarrow> world \<Rightarrow> document_processor outcome \<times> world" where
  "DocumentProcessor_init c path csize coverlap w =
     (case new_embeddings c w of
        (Inl e, w1) \<Rightarrow> (Inl e, w1)
      | (Inr emb, w1) \<Rightarrow>
          (Inr \<lparr>pdf_path = path, chunk_size = csize, chunk_overlap = coverlap,
                dp_embeddings = emb, dp_vector_store = None\<rparr>, w1))"

text \<open>
  The loop \<^verbatim>\<open>for page in reader.pages: text += page.extract_text() + "\n"\<close>; the page
  number is only kept for the log.
\<close>

fun extract_pages :: "(py_exception + string) list \<Rightarrow> string \<Rightarrow> nat \<Rightarrow> world \<Rightarrow> string outcome \<times> world" where
  "extract_pages [] text i w = (Inr text, w)"
| "extract_pages (p # ps) text i w =
     (let w1 = log_call (Call_extract_text i) w in
      case p of
        Inl e \<Rightarrow> (Inl e, w1)
      | Inr t \<Rightarrow> extract_pages ps (text @ t @ [CHR 0x0A]) (Suc i) w1)"

definition extract_text_from_pdf :: "collaborators \<Rightarrow> document_processor \<Rightarrow> world \<Rightarrow> string outcome \<times> world" where
  "extract_text_from_pdf c self w =
     try_except
       (let w1 = log_call (Call_PdfReader (pdf_path self)) w in
        case pdf_reader c (pdf_path self) of
          Inl e \<Rightarrow> (Inl e, w1)
        | Inr pages \<Rightarrow> extract_pages pages [] 0 w1)
       (\<lambda>e w2. (Inr [], print (''Error extracting text from PDF: '' @ str e) w2))"

text \<open>
  \<^verbatim>\<open>split_text_into_chunks\<close> hands the text to langchain's RecursiveCharacterTextSplitter,
  built with the processor's chunk size and overlap and \<^verbatim>\<open>len\<close> as length function, and
  wraps each chunk it returns, in order, in a document. How the text is cut is the
  library's, a collaborator here (\<open>splitter_split_text\<close>).
\<close>

definition split_text_into_chunks :: "collaborators \<Rightarrow> document_processor \<Rightarrow> string \<Rightarrow> world \<Rightarrow> document list outcome \<times> world" where
  "split_text_into_chunks c self text w =
     (let w1 = log_call (Call_split_text (chunk_size self) (chunk_overlap self) text) w in
      case splitter_split_text c (chunk_size self) (chunk_overlap self) text of
        Inl e \<Rightarrow> (Inl e, w1)
      | Inr chunks \<Rightarrow> (Inr (map Document chunks), w1))"

definition create_vector_store :: "collaborators \<Rightarrow> document_processor \<Rightarrow> document list \<Rightarrow> world \<Rightarrow> faiss option outcome \<times> world" where
  "create_vector_store c self documents w =
     try_except
       (let w1 = log_call (Call_FAISS_from_documents documents) w in
        case faiss_from_documents c documents (dp_embeddings self) of
          Inl e \<Rightarrow> (Inl e, w1)
        | Inr vector_store \<Rightarrow> (Inr (Some vector_store), w1))
       (\<lambda>e w2. (Inr None, print (''Error creating vector store: '' @ str e) w2))"

definition save_vector_store :: "collaborators \<Rightarrow> document_processor \<Rightarrow> faiss \<Rightarrow> string \<Rightarrow> world \<Rightarrow> unit outcome \<times> world" where
  "save_vector_store c self vector_store save_path w =
     try_except
       (let w1 = log_call (Call_FAISS_save_local vector_store save_path) w in
        case faiss_save_local c vector_store save_path (fs w1) of
          (Some e, fs') \<Rightarrow> (Inl e, w1\<lparr>fs := fs'\<rparr>)
        | (None, fs') \<Rightarrow> (Inr (), print (''Vector store saved to '' @ save_path) (w1\<lparr>fs := fs'\<rparr>)))
       (\<lambda>e w2. (Inr (), print (''Error saving vector store: '' @ str e) w2))"

definition load_vector_store :: "collaborators \<Rightarrow> document_processor \<Rightarrow> string \<Rightarrow> world \<Rightarrow> faiss option outcome \<times> world" where
  "load_vector_store c self load_path w =
     try_except
       (let w1 = log_call (Call_FAISS_load_local load_path) w in
        case faiss_load_local c load_path (dp_embeddings self) (fs w1) of
          Inl e \<Rightarrow> (Inl e, w1)
        | Inr vector_store \<Rightarrow>
            (Inr (Some vector_store), print (''Vector store loaded from '' @ load_path) w1))
       (\<lambda>e w2. (Inr None, print (''Error loading vector store: '' @ str e) w2))"

text \<open>
  \<^verbatim>\<open>process_document\<close> assigns \<^verbatim>\<open>self.vector_store\<close>, so it returns the object as well. The
  tests \<^verbatim>\<open>if not text\<close> and \<^verbatim>\<open>if vector_store and save_vector_store\<close> are Python truthiness:
  the empty string and \<^verbatim>\<open>None\<close> are false, a FAISS object is true.
\<close>

definition process_document ::
  "collaborators \<Rightarrow> document_processor \<Rightarrow> bool \<Rightarrow> world \<Rightarrow> faiss option outcome \<times> document_processor \<times> world" where
  "process_document c self save_flag w =
     (let w0 = print ''Extracting text from PDF...'' w in
      case extract_text_from_pdf c self w0 of
        (Inl e, w1) \<Rightarrow> (Inl e, self, w1)
      | (Inr text, w1) \<Rightarrow>
          if text = [] then (Inr None, self, print ''No text extracted from PDF'' w1)
          else
            (let w2 = print ''Splitting text into chunks...'' w1 in
             case split_text_into_chunks c self text w2 of
               (Inl e, w3) \<Rightarrow> (Inl e, self, w3)
             | (Inr documents, w3) \<Rightarrow>
                 (let w4 = print (''Created '' @ str_nat (length documents) @ '' chunks'') w3;
                      w5 = print ''Creating vector store...'' w4 in
                  case create_vector_store c self documents w5 of
                    (Inl e, w6) \<Rightarrow> (Inl e, self, w6)
                  | (Inr vector_store, w6) \<Rightarrow>
                      (case (case vector_store of
                               Some vs \<Rightarrow>
                                 if save_flag then save_vector_store c self vs ''vector_store'' w6
                                 else (Inr (), w6)
                             | None \<Rightarrow> (Inr (), w6)) of
                         (Inl e, w7) \<Rightarrow> (Inl e, self, w7)
                       | (Inr u, w7) \<Rightarrow>
                           (Inr vector_store, self\<lparr>dp_vector_store := vector_store\<rparr>, w7)))))"

text \<open>Which exception, if any, the extraction of a PDF meets first.\<close>

fun first_raise :: "(py_exception + string) list \<Rightarrow> py_exception option" where
  "first_raise [] = None"
| "first_raise (Inl e # ps) = Some e"
| "first_raise (Inr t # ps) = first_raise ps"

definition extraction_raises :: "collaborators \<Rightarrow> string \<Rightarrow> py_exception option" where
  "extraction_raises c path =
     (case pdf_reader c path of Inl e \<Rightarrow> Some e | Inr pages \<Rightarrow> first_raise pages)"

section \<open>rag\_system.py: class GeographyRAGSystem\<close>

record geography_rag_system =
  api_key :: string
  embeddings :: hf_embeddings
  vector_store :: "faiss option"
  llm :: "chat_groq option"
  qa_chain :: "retrieval_qa option"

text \<open>
  \<^verbatim>\<open>_create_qa_chain\<close>: the guard \<^verbatim>\<open>if not self.vector_store or not self.llm: return\<close>, then
  the chain is built over the store's retriever with \<^verbatim>\<open>k = 4\<close>.
\<close>

definition create_qa_chain ::
  "collaborators \<Rightarrow> geography_rag_system \<Rightarrow> world \<Rightarrow> unit outcome \<times> geography_rag_system \<times> world" where
  "create_qa_chain c self w =
     (case vector_store self of
        None \<Rightarrow> (Inr (), self, w)
      | Some vs \<Rightarrow>
          (case llm self of
             None \<Rightarrow> (Inr (), self, w)
           | Some l \<Rightarrow>
               (let w1 = log_call (Call_RetrievalQA_from_chain_type l vs) w in
                case retrieval_qa_from_chain_type c l vs of
                  Some e \<Rightarrow> (Inl e, self, w1)
                | None \<Rightarrow> (Inr (), self\<lparr>qa_chain := Some (RetrievalQA l vs 4)\<rparr>, w1))))"

text \<open>
  \<^verbatim>\<open>_initialize_components\<close>: one \<^verbatim>\<open>try\<close> around the three steps; an assignment made before
  the exception stays.
\<close>

definition initialize_components ::
  "collaborators \<Rightarrow> geography_rag_system \<Rightarrow> world \<Rightarrow> unit outcome \<times> geography_rag_system \<times> world" where
  "initialize_components c self w =
     try_except
       (let w1 = log_call (Call_ChatGroq (api_key self)) w in
        case chat_groq_init c (api_key self) of
          Some e \<Rightarrow> (Inl e, self, w1)
        | None \<Rightarrow>
            (let self1 = self\<lparr>llm := Some (ChatGroq (api_key self) ''openai/gpt-oss-20b'')\<rparr> in
             if os_path_exists ''vector_store'' w1 then
               (let w2 = log_call (Call_FAISS_load_local ''vector_store'') w1 in
                case faiss_load_local c ''vector_store'' (embeddings self1) (fs w2) of
                  Inl e \<Rightarrow> (Inl e, self1, w2)
                | Inr vs \<Rightarrow> create_qa_chain c (self1\<lparr>vector_store := Some vs\<rparr>) w2)
             else (Inr (), self1, w1)))
       (\<lambda>e (self2, w3). (Inr (), self2, print (''Error initializing components: '' @ str e) w3))"

definition GeographyRAGSystem_init ::
  "collaborators \<Rightarrow> string \<Rightarrow> world \<Rightarrow> geography_rag_system outcome \<times> world" where
  "GeographyRAGSystem_init c key w =
     (case new_embeddings c w of
        (Inl e, w1) \<Rightarrow> (Inl e, w1)
      | (Inr emb, w1) \<Rightarrow>
          (case initialize_components c
                  \<lparr>api_key = key, embeddings = emb, vector_store = None, llm = None,
                   qa_chain = None\<rparr> w1 of
             (Inl e, self, w2) \<Rightarrow> (Inl e, w2)
           | (Inr u, self, w2) \<Rightarrow> (Inr self, w2)))"

definition retrieve_relevant_documents ::
  "collaborators \<Rightarrow> geography_rag_system \<Rightarrow> string \<Rightarrow> int \<Rightarrow> world \<Rightarrow> document list outcome \<times> world" where
  "retrieve_relevant_documents c self query k w =
     (case vector_store self of
        None \<Rightarrow> (Inr [], w)
      | Some vs \<Rightarrow>
          try_except
            (let w1 = log_call (Call_similarity_search vs query k) w in
             case faiss_similarity_search c vs query k of
               Inl e \<Rightarrow> (Inl e, w1)
             | Inr docs \<Rightarrow> (Inr docs, w1))
            (\<lambda>e w2. (Inr [], print (''Error retrieving documents: '' @ str e) w2)))"

definition not_initialized_message :: string where
  "not_initialized_message =
     ''Sorry, the system is not properly initialized. Please check if the vector store exists.''"

definition provenance_sentence :: string where
  "provenance_sentence =
     [CHR 0x0A, CHR 0x0A] @ ''*This answer is based on NCERT Class 10 Geography textbook content.*''"

text \<open>
  \<^verbatim>\<open>answer_question\<close>. A missing \<^verbatim>\<open>"result"\<close> key raises \<^verbatim>\<open>KeyError('result')\<close> inside the
  \<^verbatim>\<open>try\<close>; \<^verbatim>\<open>if source_docs\<close> is true for a non-empty list.
\<close>

definition answer_question ::
  "collaborators \<Rightarrow> geography_rag_system \<Rightarrow> string \<Rightarrow> world \<Rightarrow> string outcome \<times> world" where
  "answer_question c self question w =
     (case qa_chain self of
        None \<Rightarrow> (Inr not_initialized_message, w)
      | Some chain \<Rightarrow>
          try_except
            (let w1 = log_call (Call_qa_chain chain question) w in
             case retrieval_qa_call c chain question of
               Inl e \<Rightarrow> (Inl e, w1)
             | Inr result \<Rightarrow>
                 (case result_key result of
                    None \<Rightarrow> (Inl (PyException ([CHR 0x27] @ ''result'' @ [CHR 0x27])), w1)
                  | Some answer \<Rightarrow>
                      (let source_docs = (case source_documents_key result of
                                            None \<Rightarrow> [] | Some docs \<Rightarrow> docs)
                       in if source_docs \<noteq> [] then (Inr (answer @ provenance_sentence), w1)
                          else (Inr answer, w1))))
            (\<lambda>e w2. (Inr (''Error generating answer: '' @ str e), w2)))"

definition get_topic_suggestions :: "geography_rag_system \<Rightarrow> string list" where
  "get_topic_suggestions self =
     [''Resources and Development'',
      ''Forest and Wildlife Resources'',
      ''Water Resources'',
      ''Agriculture'',
      ''Minerals and Energy Resources'',
      ''Manufacturing Industries'',
      ''Lifelines of National Economy'',
      ''Renewable and Non-renewable Resources'',
      ''Sustainable Development'',
      ''Conservation of Resources'',
      ''Types of Agriculture'',
      ''Major Crops in India'',
      ''Industrial Development'',
      ''Transportation and Communication'',
      ''International Trade'']"

definition is_ready :: "geography_rag_system \<Rightarrow> bool" where
  "is_ready self = (vector_store self \<noteq> None \<and> qa_chain self \<noteq> None)"

text \<open>
  The public operations of a constructed system. None of them assigns an attribute of
  \<^verbatim>\<open>self\<close>; \<open>exec_op\<close> returns the object it was given so that a sequence of operations
  is a sequence of states.
\<close>

datatype operation =
    Op_retrieve_relevant_documents string int
  | Op_answer_question string
  | Op_get_topic_suggestions
  | Op_is_ready

datatype response =
    Documents "document list outcome"
  | Answer "string outcome"
  | Topics "string list"
  | Ready bool

fun exec_op :: "collaborators \<Rightarrow> operation \<Rightarrow> geography_rag_system \<Rightarrow> world \<Rightarrow> response \<times> geography_rag_system \<times> world" where
  "exec_op c (Op_retrieve_relevant_documents query k) self w =
     (case retrieve_relevant_documents c self query k w of (r, w1) \<Rightarrow> (Documents r, self, w1))"
| "exec_op c (Op_answer_question question) self w =
     (case answer_question c self question w of (r, w1) \<Rightarrow> (Answer r, self, w1))"
| "exec_op c Op_get_topic_suggestions self w = (Topics (get_topic_suggestions self), self, w)"
| "exec_op c Op_is_ready self w = (Ready (is_ready self), self, w)"

inductive reachable :: "collaborators \<Rightarrow> geography_rag_system \<Rightarrow> bool" for c where
  constructed: "GeographyRAGSystem_init c key w = (Inr self, w1) \<Longrightarrow> reachable c self"
| operated: "reachable c self \<Longrightarrow> exec_op c op self w = (r, self1, w1) \<Longrightarrow> reachable c self1"

section \<open>The second GeographyRAGSystem, at the end of document\_processor.py\<close>

text \<open>
  The class that file defines after its \<^verbatim>\<open>rag_system (1).py\<close> marker; its names carry the
  suffix \<open>_1\<close>. It retrieves page contents rather than documents. The page imports the
  class of \<^verbatim>\<open>rag_system.py\<close>; of this one, the object and its retrieval are modelled.
\<close>

record geography_rag_system_1 =
  groq_client_1 :: groq_client
  embeddings_1 :: hf_embeddings
  vector_store_1 :: "faiss option"
  vector_store_path_1 :: string

definition retrieve_relevant_documents_1 ::
  "collaborators \<Rightarrow> geography_rag_system_1 \<Rightarrow> string \<Rightarrow> int \<Rightarrow> world \<Rightarrow> string list outcome \<times> world" where
  "retrieve_relevant_documents_1 c self query k w =
     (case vector_store_1 self of
        None \<Rightarrow> (Inr [], w)
      | Some vs \<Rightarrow>
          try_except
            (let w1 = log_call (Call_similarity_search vs query k) w in
             case faiss_similarity_search c vs query k of
               Inl e \<Rightarrow> (Inl e, w1)
             | Inr docs \<Rightarrow> (Inr (map page_content docs), w1))
            (\<lambda>e w2. (Inr [], print (''Error retrieving documents: '' @ str e) w2)))"

section \<open>app.py: the Streamlit page\<close>

text \<open>
  \<^verbatim>\<open>str.strip()\<close> removes leading and trailing whitespace; \<open>isspace\<close> is Python's
  \<^verbatim>\<open>str.isspace\<close> on the characters below 256.
\<close>

definition isspace :: "char \<Rightarrow> bool" where
  "isspace ch = (let n = (of_char ch :: nat) in
     (9 \<le> n \<and> n \<le> 13) \<or> (28 \<le> n \<and> n \<le> 32) \<or> n = 133 \<or> n = 160)"

definition strip :: "string \<Rightarrow> string" where
  "strip s = rev (dropWhile isspace (rev (dropWhile isspace s)))"

text \<open>
  \<^verbatim>\<open>st.session_state\<close> as a run of the script finds it: a key may be missing.
  \<^verbatim>\<open>initialize_session_state\<close> gives the three keys it names their defaults; from then on
  the script reads them as attributes (record \<open>session\<close>), and \<open>stored\<close> is what the next
  run finds. \<^verbatim>\<open>current_question\<close> is set by a sample button and deleted when read.
\<close>

record session_state =
  rag_system_key :: "geography_rag_system option option"
  vector_store_ready_key :: "bool option"
  chat_history_key :: "(string \<times> string) list option"
  current_question_key :: "string option"

record session =
  rag_system :: "geography_rag_system option"
  vector_store_ready :: bool
  chat_history :: "(string \<times> string) list"
  current_question :: "string option"

definition initialize_session_state :: "session_state \<Rightarrow> session" where
  "initialize_session_state ss =
     \<lparr>rag_system = (case rag_system_key ss of None \<Rightarrow> None | Some r \<Rightarrow> r),
      vector_store_ready = (case vector_store_ready_key ss of None \<Rightarrow> False | Some b \<Rightarrow> b),
      chat_history = (case chat_history_key ss of None \<Rightarrow> [] | Some h \<Rightarrow> h),
      current_question = current_question_key ss\<rparr>"

definition stored :: "session \<Rightarrow> session_state" where
  "stored s =
     \<lparr>rag_system_key = Some (rag_system s),
      vector_store_ready_key = Some (vector_store_ready s),
      chat_history_key = Some (chat_history s),
      current_question_key = current_question s\<rparr>"

text \<open>What the widgets return in one run: each button, and the text area.\<close>

record widgets =
  sample_button :: "string \<Rightarrow> bool"
  question_input :: string
  ask_button :: bool
  clear_button :: bool

definition pdf_file :: string where
  "pdf_file = ''Geography_AI_Tutor_RAG-based_Personalized_Learning_System.pdf''"

definition setup_rag_system ::
  "collaborators \<Rightarrow> session \<Rightarrow> world \<Rightarrow> geography_rag_system option outcome \<times> session \<times> world" where
  "setup_rag_system c s w =
     (let api_key = ''your key'';
          initialize = (\<lambda>s1 w1.
            case GeographyRAGSystem_init c api_key w1 of
              (Inl e, w2) \<Rightarrow> (Inl e, s1, w2)
            | (Inr rag, w2) \<Rightarrow> (Inr (Some rag), s1, w2))
      in try_except
        (if \<not> os_path_exists ''vector_store'' w then
           (let w1 = render (St_warning ''Vector store not found. Processing document...'') w in
            case DocumentProcessor_init c pdf_file 1000 200 w1 of
              (Inl e, w2) \<Rightarrow> (Inl e, s, w2)
            | (Inr processor, w2) \<Rightarrow>
                (case process_document c processor True w2 of
                   (Inl e, processor1, w3) \<Rightarrow> (Inl e, s, w3)
                 | (Inr None, processor1, w3) \<Rightarrow>
                     (Inr None, s, render (St_error ''Failed to process document.'') w3)
                 | (Inr (Some vs), processor1, w3) \<Rightarrow>
                     initialize (s\<lparr>vector_store_ready := True\<rparr>)
                       (render (St_success ''Document processed successfully!'') w3)))
         else initialize (s\<lparr>vector_store_ready := True\<rparr>) w)
        (\<lambda>e (s2, w4). (Inr None, s2, render (St_error (''Error setting up RAG system: '' @ str e)) w4)))"

text \<open>
  \<^verbatim>\<open>display_chat_history\<close>: the last five entries, each in an expander labelled with
  \<^verbatim>\<open>len(history) - 4 + i\<close> and the first fifty characters of the question.
\<close>

definition display_chat_history :: "session \<Rightarrow> world \<Rightarrow> world" where
  "display_chat_history s w =
     (let h = chat_history s in
      if h \<noteq> [] then
        fold (\<lambda>(i, question, answer).
                render (St_expander
                  (''Q'' @ str_int (int (length h) - 4 + int i) @ '': '' @ take 50 question @ ''...'')
                  (''**Question:** '' @ question)
                  (''**Answer:** '' @ answer)))
             (enumerate 0 (drop (length h - 5) h)) w
      else w)"

definition sample_questions :: "string list" where
  "sample_questions =
     [''What are renewable resources?'',
      ''Explain the importance of forests'',
      ''What is sustainable development?'',
      ''Types of agriculture in India'',
      ''What are the factors affecting agriculture?'']"

text \<open>The sidebar loop over the sample buttons.\<close>

definition press_sample_buttons :: "widgets \<Rightarrow> session \<Rightarrow> session" where
  "press_sample_buttons wd s =
     fold (\<lambda>question s1. if sample_button wd question then s1\<lparr>current_question := Some question\<rparr> else s1)
          sample_questions s"

text \<open>
  The variables \<^verbatim>\<open>default_question\<close> and \<^verbatim>\<open>question\<close> of \<^verbatim>\<open>main\<close>, from the session as it
  is when the text area is reached.
\<close>

definition default_question :: "session \<Rightarrow> string" where
  "default_question s = (case current_question s of Some q \<Rightarrow> q | None \<Rightarrow> [])"

definition question_of :: "widgets \<Rightarrow> session \<Rightarrow> string" where
  "question_of wd s =
     (if default_question s \<noteq> [] \<and> strip (question_input wd) = [] then default_question s
      else question_input wd)"

datatype run_end = Returned | Rerun

text \<open>
  The part of \<^verbatim>\<open>main\<close> under its comment \<^verbatim>\<open># Main interface\<close>, reached when the session
  holds a system object \<open>rag\<close>: the question, the two buttons, the statistics and the
  history. \<^verbatim>\<open>st.rerun()\<close> stops the run at once (\<open>Rerun\<close>); the rest of the function is
  not executed.
\<close>

definition main_interface ::
  "collaborators \<Rightarrow> widgets \<Rightarrow> geography_rag_system \<Rightarrow> session \<Rightarrow> world \<Rightarrow> run_end outcome \<times> session \<times> world" where
  "main_interface c wd rag s2 w2 =
     (let question = question_of wd s2;
          s3 = s2\<lparr>current_question := None\<rparr>
      in if clear_button wd then (Inr Rerun, s3\<lparr>chat_history := []\<rparr>, w2)
         else
           (case (if ask_button wd then
                    if strip question \<noteq> [] then
                      try_except
                        (case answer_question c rag question w2 of
                           (Inl e, w3) \<Rightarrow> (Inl e, s3, w3)
                         | (Inr answer, w3) \<Rightarrow>
                             (Inr (),
                              s3\<lparr>chat_history := chat_history s3 @ [(question, answer)]\<rparr>,
                              render (St_markdown (''**Answer:** '' @ answer))
                                (render (St_markdown (''**Question:** '' @ question)) w3)))
                        (\<lambda>e (s', w').
                           (Inr (), s', render (St_error (''Error generating answer: '' @ str e)) w'))
                    else (Inr (), s3, render (St_warning ''Please enter a question first!'') w2)
                  else (Inr (), s3, w2)) of
              (Inl e, s4, w4) \<Rightarrow> (Inl e, s4, w4)
            | (Inr u, s4, w4) \<Rightarrow>
                (let w5 = render (St_metric_questions_asked (length (chat_history s4))) w4;
                     w6 = render (St_metric_vector_store_status (vector_store_ready s4)) w5;
                     w7 = fold (\<lambda>topic. render (St_topic topic))
                            (take 6 (get_topic_suggestions rag)) w6;
                     w8 = (if chat_history s4 \<noteq> [] then display_chat_history s4 w7 else w7)
                 in (Inr Returned, s4, w8))))"

text \<open>
  One run of \<^verbatim>\<open>main\<close>: the session defaults, the sample buttons of the sidebar, the set-up
  of the system when the session has none, and the main interface.
\<close>

definition main ::
  "collaborators \<Rightarrow> widgets \<Rightarrow> session_state \<Rightarrow> world \<Rightarrow> run_end outcome \<times> session \<times> world" where
  "main c wd ss w =
     (let s0 = initialize_session_state ss;
          s1 = press_sample_buttons wd s0
      in case (case rag_system s1 of
                 None \<Rightarrow>
                   (case setup_rag_system c s1 w of
                      (Inl e, s', w') \<Rightarrow> (Inl e, s', w')
                    | (Inr r, s', w') \<Rightarrow> (Inr (), s'\<lparr>rag_system := r\<rparr>, w'))
               | Some r \<Rightarrow> (Inr (), s1, w)) of
           (Inl e, s2, w2) \<Rightarrow> (Inl e, s2, w2)
         | (Inr u, s2, w2) \<Rightarrow>
             (case rag_system s2 of
                None \<Rightarrow>
                  (Inr Returned, s2,
                   render (St_error ''Failed to initialize the AI tutor. Please check the setup.'') w2)
              | Some rag \<Rightarrow> main_interface c wd rag s2 w2))"

text \<open>
  What Streamlit does with one user interaction: it runs the script on an empty page, and
  when the run asks for a rerun it runs the script again, on an empty page, with the
  session the first run left and no button pressed.
\<close>

definition released :: "widgets \<Rightarrow> widgets" where
  "released wd = wd\<lparr>sample_button := (\<lambda>q. False), ask_button := False, clear_button := False\<rparr>"

definition run_script ::
  "collaborators \<Rightarrow> widgets \<Rightarrow> session_state \<Rightarrow> world \<Rightarrow> run_end outcome \<times> session \<times> world" where
  "run_script c wd ss w =
     (case main c wd ss (w\<lparr>page := []\<rparr>) of
        (Inr Rerun, s, w1) \<Rightarrow> main c (released wd) (stored s) (w1\<lparr>page := []\<rparr>)
      | (r, s, w1) \<Rightarrow> (r, s, w1))"

section \<open>Observations used in the statements\<close>

text \<open>
  The calls that reach retrieval or completion, as the log of a world records them: a
  similarity search, and a call of the chain, which retrieves and then completes.
\<close>

fun query_call :: "call \<Rightarrow> bool" where
  "query_call (Call_similarity_search vs query k) = True"
| "query_call (Call_qa_chain chain question) = True"
| "query_call other = False"

definition query_calls :: "world \<Rightarrow> call list" where
  "query_calls w = filter query_call (calls w)"

text \<open>The invariant of a \<open>geography_rag_system\<close>: a chain exists only over a store and a model.\<close>

definition chain_has_parts :: "geography_rag_system \<Rightarrow> bool" where
  "chain_has_parts self = (qa_chain self = None \<or> (vector_store self \<noteq> None \<and> llm self \<noteq> None))"

section \<open>Concrete collaborators and states\<close>

text \<open>
  A set of collaborators that all work, over a two-page PDF, and an empty world. The
  instances below exchange single collaborators for failing ones.
\<close>

definition working_collaborators :: collaborators where
  "working_collaborators =
     \<lparr>hf_embeddings_init = None,
      pdf_reader = (\<lambda>path. Inr [Inr ''Rivers'', Inr ''Soils'']),
      splitter_split_text = (\<lambda>csize coverlap text. Inr [take 7 text, drop 7 text]),
      faiss_from_documents = (\<lambda>docs emb. Inr (FAISS docs)),
      faiss_save_local = (\<lambda>vs path files. (None, files(path \<mapsto> ''index''))),
      faiss_load_local = (\<lambda>path emb files.
         case files path of
           None \<Rightarrow> Inl (PyException ''no such file'')
         | Some blob \<Rightarrow> Inr (FAISS [Document ''Rivers'', Document ''Soils''])),
      faiss_similarity_search = (\<lambda>vs query k. Inr (take (nat k) (docstore vs))),
      chat_groq_init = (\<lambda>key. None),
      retrieval_qa_from_chain_type = (\<lambda>l vs. None),
      retrieval_qa_call = (\<lambda>chain question.
         Inr \<lparr>result_key = Some ''Rivers carry water.'',
              source_documents_key = Some (take (nat (chain_k chain)) (docstore (chain_store chain)))\<rparr>)\<rparr>"

definition empty_world :: world where
  "empty_world = \<lparr>fs = (\<lambda>path. None), stdout = [], calls = [], page = []\<rparr>"

definition indexed_world :: world where
  "indexed_world = \<lparr>fs = [''vector_store'' \<mapsto> ''index''], stdout = [], calls = [], page = []\<rparr>"

definition sample_processor :: document_processor where
  "sample_processor =
     \<lparr>pdf_path = ''book.pdf'', chunk_size = 1000, chunk_overlap = 200,
      dp_embeddings = HuggingFaceEmbeddings ''sentence-transformers/all-MiniLM-L6-v2'' ''cpu'',
      dp_vector_store = None\<rparr>"

definition sample_llm :: chat_groq where
  "sample_llm = ChatGroq ''key'' ''openai/gpt-oss-20b''"

definition sample_store :: faiss where
  "sample_store = FAISS [Document ''Rivers'', Document ''Soils'']"

definition ready_system :: geography_rag_system where
  "ready_system =
     \<lparr>api_key = ''key'',
      embeddings = HuggingFaceEmbeddings ''sentence-transformers/all-MiniLM-L6-v2'' ''cpu'',
      vector_store = Some sample_store,
      llm = Some sample_llm,
      qa_chain = Some (RetrievalQA sample_llm sample_store 4)\<rparr>"

definition unready_system :: geography_rag_system where
  "unready_system = ready_system\<lparr>vector_store := None, qa_chain := None\<rparr>"

definition unready_system_1 :: geography_rag_system_1 where
  "unready_system_1 =
     \<lparr>groq_client_1 = Groq ''key'',
      embeddings_1 = HuggingFaceEmbeddings ''sentence-transformers/all-MiniLM-L6-v2'' ''cpu'',
      vector_store_1 = None,
      vector_store_path_1 = ''vector_store''\<rparr>"

definition no_widgets :: widgets where
  "no_widgets = \<lparr>sample_button = (\<lambda>q. False), question_input = [], ask_button = False, clear_button = False\<rparr>"

text \<open>Two completion services that refuse every call, each with its own error.\<close>

definition rate_limited_collaborators :: collaborators where
  "rate_limited_collaborators =
     working_collaborators\<lparr>retrieval_qa_call :=
       (\<lambda>chain question. Inl (PyException ''rate limit''))\<rparr>"

definition invalid_key_collaborators :: collaborators where
  "invalid_key_collaborators =
     working_collaborators\<lparr>retrieval_qa_call :=
       (\<lambda>chain question. Inl (PyException ''Invalid API Key''))\<rparr>"

definition blank_submission :: widgets where
  "blank_submission = no_widgets\<lparr>question_input := [CHR 0x20, CHR 0x09], ask_button := True\<rparr>"

definition clear_click :: widgets where
  "clear_click = no_widgets\<lparr>clear_button := True\<rparr>"

definition ready_session :: session_state where
  "ready_session =
     \<lparr>rag_system_key = Some (Some ready_system),
      vector_store_ready_key = Some True,
      chat_history_key = Some [(''What is soil?'', ''Soil is the upper layer of the earth.'')],
      current_question_key = None\<rparr>"

section \<open>Effects of the primitive steps\<close>

lemma print_fields [simp]:
  "fs (print l w) = fs w" "calls (print l w) = calls w" "page (print l w) = page w"
  "stdout (print l w) = stdout w @ [l]"
  by (simp_all add: print_def)

lemma log_call_fields [simp]:
  "fs (log_call x w) = fs w" "calls (log_call x w) = calls w @ [x]"
  "page (log_call x w) = page w" "stdout (log_call x w) = stdout w"
  by (simp_all add: log_call_def)

lemma render_fields [simp]:
  "fs (render ev w) = fs w" "calls (render ev w) = calls w"
  "page (render ev w) = page w @ [ev]" "stdout (render ev w) = stdout w"
  by (simp_all add: render_def)

lemma query_calls_steps [simp]:
  "query_calls (print l w) = query_calls w"
  "query_calls (render ev w) = query_calls w"
  "query_calls (log_call x w) = query_calls w @ (if query_call x then [x] else [])"
  "query_calls (w\<lparr>fs := files\<rparr>) = query_calls w"
  "query_calls (w\<lparr>page := p\<rparr>) = query_calls w"
  by (simp_all add: query_calls_def)

lemma try_except_simps [simp]:
  "try_except (Inr v, s) handler = (Inr v, s)"
  "try_except (Inl e, s) handler = handler e s"
  by (simp_all add: try_except_def)

lemma upt_shift: "[i..<i + Suc n] = i # [Suc i..<Suc i + n]"
  by (simp add: upt_conv_Cons)

section \<open>The extractor\<close>

lemma extract_pages_raise:
  "first_raise pages = Some e \<Longrightarrow>
     \<exists>n\<le>length pages. extract_pages pages acc i w =
        (Inl e, w\<lparr>calls := calls w @ map Call_extract_text [i..<i + n]\<rparr>)"
proof (induction pages arbitrary: acc i w)
  case Nil
  then show ?case by simp
next
  case (Cons p ps)
  show ?case
  proof (cases p)
    case (Inl e')
    with Cons.prems have "e' = e" by simp
    with Inl have "extract_pages (p # ps) acc i w =
        (Inl e, w\<lparr>calls := calls w @ map Call_extract_text [i..<i + 1]\<rparr>)"
      by (simp add: log_call_def)
    then show ?thesis by (intro exI[of _ 1]) simp
  next
    case (Inr t)
    let ?w1 = "log_call (Call_extract_text i) w"
    from Inr Cons.prems have "first_raise ps = Some e" by simp
    from Cons.IH[OF this]
    obtain n where n: "n \<le> length ps"
      and run: "extract_pages ps (acc @ t @ [CHR 0x0A]) (Suc i) ?w1 =
        (Inl e, ?w1\<lparr>calls := calls ?w1 @ map Call_extract_text [Suc i..<Suc i + n]\<rparr>)"
      by blast
    have "extract_pages (p # ps) acc i w =
        (Inl e, w\<lparr>calls := calls w @ map Call_extract_text [i..<i + Suc n]\<rparr>)"
      unfolding upt_shift using Inr run by (simp add: log_call_def)
    with n show ?thesis by (intro exI[of _ "Suc n"]) simp
  qed
qed

lemma extract_pages_frame:
  "extract_pages pages acc i w = (r, w1) \<Longrightarrow>
     fs w1 = fs w \<and> stdout w1 = stdout w \<and> page w1 = page w \<and> query_calls w1 = query_calls w"
proof (induction pages arbitrary: acc i w)
  case Nil
  then show ?case by auto
next
  case (Cons p ps)
  show ?case
  proof (cases p)
    case (Inl e)
    with Cons.prems show ?thesis by auto
  next
    case (Inr t)
    with Cons.prems
    have "extract_pages ps (acc @ t @ [CHR 0x0A]) (Suc i) (log_call (Call_extract_text i) w) = (r, w1)"
      by simp
    from Cons.IH[OF this] show ?thesis by simp
  qed
qed

lemma extract_text_from_pdf_returns: "\<exists>t w1. extract_text_from_pdf c self w = (Inr t, w1)"
proof (cases "pdf_reader c (pdf_path self)")
  case (Inl e)
  then show ?thesis by (simp add: extract_text_from_pdf_def)
next
  case (Inr pages)
  obtain r w1 where run: "extract_pages pages [] 0 (log_call (Call_PdfReader (pdf_path self)) w) = (r, w1)"
    by (cases "extract_pages pages [] 0 (log_call (Call_PdfReader (pdf_path self)) w)") 
  with Inr show ?thesis
    by (cases r) (simp_all add: extract_text_from_pdf_def)
qed

lemma extract_text_from_pdf_frame:
  assumes "extract_text_from_pdf c self w = (r, w1)"
  shows "fs w1 = fs w \<and> page w1 = page w \<and> query_calls w1 = query_calls w"
proof (cases "pdf_reader c (pdf_path self)")
  case (Inl e)
  with assms show ?thesis by (auto simp: extract_text_from_pdf_def)
next
  case (Inr pages)
  obtain r2 w2 where run: "extract_pages pages [] 0 (log_call (Call_PdfReader (pdf_path self)) w) = (r2, w2)"
    by (cases "extract_pages pages [] 0 (log_call (Call_PdfReader (pdf_path self)) w)") 
  from extract_pages_frame[OF run]
  have "fs w2 = fs w \<and> page w2 = page w \<and> query_calls w2 = query_calls w" by simp
  with assms Inr run show ?thesis
    by (cases r2) (auto simp: extract_text_from_pdf_def)
qed

text \<open>
  Claim C8. The extractor never raises. When the PDF reader or the text extraction of a
  page raises \<open>e\<close>, \<^verbatim>\<open>extract_text_from_pdf\<close> returns the empty string, prints one line that
  names \<open>e\<close>, leaves the file system as it was, and has opened the reader once and asked
  each page at most once (no retry).
\<close>

theorem extractor_failure_gives_empty_text:
  "(\<exists>t. fst (extract_text_from_pdf c self w) = Inr t) \<and>
   (extraction_raises c (pdf_path self) = Some e \<longrightarrow>
      fst (extract_text_from_pdf c self w) = Inr [] \<and>
      stdout (snd (extract_text_from_pdf c self w)) =
        stdout w @ [''Error extracting text from PDF: '' @ str e] \<and>
      fs (snd (extract_text_from_pdf c self w)) = fs w \<and>
      (\<exists>n. calls (snd (extract_text_from_pdf c self w)) =
         calls w @ Call_PdfReader (pdf_path self) # map Call_extract_text [0..<n]))"
proof (intro conjI impI)
  show "\<exists>t. fst (extract_text_from_pdf c self w) = Inr t"
    using extract_text_from_pdf_returns[of c self w] by auto
next
  assume raises: "extraction_raises c (pdf_path self) = Some e"
  let ?w1 = "log_call (Call_PdfReader (pdf_path self)) w"
  let ?msg = "''Error extracting text from PDF: '' @ str e"
  have "\<exists>n. extract_text_from_pdf c self w =
      (Inr [], print ?msg (?w1\<lparr>calls := calls ?w1 @ map Call_extract_text [0..<n]\<rparr>))"
  proof (cases "pdf_reader c (pdf_path self)")
    case (Inl e')
    with raises have "e' = e" by (simp add: extraction_raises_def)
    with Inl have "extract_text_from_pdf c self w =
        (Inr [], print ?msg (?w1\<lparr>calls := calls ?w1 @ map Call_extract_text [0..<0]\<rparr>))"
      by (simp add: extract_text_from_pdf_def)
    then show ?thesis by blast
  next
    case (Inr pages)
    with raises have "first_raise pages = Some e" by (simp add: extraction_raises_def)
    from extract_pages_raise[OF this, of "[]" 0 ?w1]
    obtain n where "extract_pages pages [] 0 ?w1 =
        (Inl e, ?w1\<lparr>calls := calls ?w1 @ map Call_extract_text [0..<n]\<rparr>)"
      by auto
    with Inr have "extract_text_from_pdf c self w =
        (Inr [], print ?msg (?w1\<lparr>calls := calls ?w1 @ map Call_extract_text [0..<n]\<rparr>))"
      by (simp add: extract_text_from_pdf_def)
    then show ?thesis by blast
  qed
  then obtain n where run: "extract_text_from_pdf c self w =
      (Inr [], print ?msg (?w1\<lparr>calls := calls ?w1 @ map Call_extract_text [0..<n]\<rparr>))"
    by blast
  show "fst (extract_text_from_pdf c self w) = Inr []" using run by simp
  show "stdout (snd (extract_text_from_pdf c self w)) = stdout w @ [?msg]" using run by simp
  show "fs (snd (extract_text_from_pdf c self w)) = fs w" using run by simp
  show "\<exists>n. calls (snd (extract_text_from_pdf c self w)) =
         calls w @ Call_PdfReader (pdf_path self) # map Call_extract_text [0..<n]"
    using run by auto
qed

text \<open>A PDF whose second page cannot be read.\<close>

theorem extractor_failure_gives_empty_text_witness:
  "extraction_raises
      (working_collaborators\<lparr>pdf_reader :=
         (\<lambda>path. Inr [Inr ''Rivers'', Inl (PyException ''bad page''), Inr ''Soils''])\<rparr>)
      (pdf_path sample_processor) = Some (PyException ''bad page'') \<and>
   fst (extract_text_from_pdf
      (working_collaborators\<lparr>pdf_reader :=
         (\<lambda>path. Inr [Inr ''Rivers'', Inl (PyException ''bad page''), Inr ''Soils''])\<rparr>)
      sample_processor empty_world) = Inr [] \<and>
   stdout (snd (extract_text_from_pdf
      (working_collaborators\<lparr>pdf_reader :=
         (\<lambda>path. Inr [Inr ''Rivers'', Inl (PyException ''bad page''), Inr ''Soils''])\<rparr>)
      sample_processor empty_world)) = [''Error extracting text from PDF: bad page'']"
  using extractor_failure_gives_empty_text
    [of "working_collaborators\<lparr>pdf_reader :=
         (\<lambda>path. Inr [Inr ''Rivers'', Inl (PyException ''bad page''), Inr ''Soils''])\<rparr>"
        sample_processor empty_world "PyException ''bad page''"]
  by (simp add: extraction_raises_def working_collaborators_def sample_processor_def empty_world_def)

section \<open>The question-answering system\<close>

lemma retrieve_relevant_documents_returns:
  "\<exists>docs w1. retrieve_relevant_documents c self query k w = (Inr docs, w1)"
  by (cases "vector_store self"; cases "faiss_similarity_search c (the (vector_store self)) query k")
     (simp_all add: retrieve_relevant_documents_def)

lemma retrieve_relevant_documents_1_returns:
  "\<exists>docs w1. retrieve_relevant_documents_1 c self query k w = (Inr docs, w1)"
  by (cases "vector_store_1 self"; cases "faiss_similarity_search c (the (vector_store_1 self)) query k")
     (simp_all add: retrieve_relevant_documents_1_def)

lemma answer_question_returns:
  "\<exists>s w1. answer_question c self question w = (Inr s, w1)"
proof (cases "qa_chain self")
  case None
  then show ?thesis by (simp add: answer_question_def)
next
  case (Some chain)
  show ?thesis
  proof (cases "retrieval_qa_call c chain question")
    case (Inl e)
    with Some show ?thesis by (simp add: answer_question_def)
  next
    case (Inr res)
    with Some show ?thesis
      by (cases "result_key res") (simp_all add: answer_question_def Let_def)
  qed
qed

lemma create_qa_chain_keeps_invariant:
  assumes "create_qa_chain c self w = (r, self1, w1)" and "chain_has_parts self"
  shows "chain_has_parts self1"
  using assms
  by (auto simp: create_qa_chain_def chain_has_parts_def Let_def
           split: option.splits)

lemma initialize_components_invariant:
  assumes "initialize_components c self w = (r, self1, w1)" and "qa_chain self = None"
  shows "chain_has_parts self1"
proof (cases "chat_groq_init c (api_key self)")
  case (Some e)
  with assms show ?thesis
    by (auto simp: initialize_components_def chain_has_parts_def)
next
  case None
  let ?w1 = "log_call (Call_ChatGroq (api_key self)) w"
  let ?self1 = "self\<lparr>llm := Some (ChatGroq (api_key self) ''openai/gpt-oss-20b'')\<rparr>"
  show ?thesis
  proof (cases "os_path_exists ''vector_store'' ?w1")
    case False
    with None assms show ?thesis
      by (auto simp: initialize_components_def chain_has_parts_def)
  next
    case True
    let ?w2 = "log_call (Call_FAISS_load_local ''vector_store'') ?w1"
    show ?thesis
    proof (cases "faiss_load_local c ''vector_store'' (embeddings ?self1) (fs ?w2)")
      case (Inl e)
      with None True assms show ?thesis
        by (auto simp: initialize_components_def chain_has_parts_def)
    next
      case (Inr vs)
      obtain r2 self2 w2 where run:
        "create_qa_chain c (?self1\<lparr>vector_store := Some vs\<rparr>) ?w2 = (r2, self2, w2)"
        by (cases "create_qa_chain c (?self1\<lparr>vector_store := Some vs\<rparr>) ?w2") 
      have "chain_has_parts (?self1\<lparr>vector_store := Some vs\<rparr>)"
        using assms(2) by (simp add: chain_has_parts_def)
      from create_qa_chain_keeps_invariant[OF run this] have inv2: "chain_has_parts self2" .
      from None True Inr run assms(1) have "self1 = self2"
        by (cases r2) (auto simp: initialize_components_def Let_def)
      with inv2 show ?thesis by simp
    qed
  qed
qed

lemma GeographyRAGSystem_init_invariant:
  assumes "GeographyRAGSystem_init c key w = (Inr self, w1)"
  shows "chain_has_parts self"
proof (cases "hf_embeddings_init c")
  case (Some e)
  with assms show ?thesis by (simp add: GeographyRAGSystem_init_def new_embeddings_def)
next
  case None
  let ?emb = "HuggingFaceEmbeddings ''sentence-transformers/all-MiniLM-L6-v2'' ''cpu''"
  let ?self0 = "\<lparr>api_key = key, embeddings = ?emb, vector_store = None, llm = None, qa_chain = None\<rparr>"
  let ?w0 = "log_call Call_HuggingFaceEmbeddings w"
  obtain r self2 w2 where run: "initialize_components c ?self0 ?w0 = (r, self2, w2)"
    by (cases "initialize_components c ?self0 ?w0")
  have "chain_has_parts self2"
    by (rule initialize_components_invariant[OF run]) simp
  moreover from None run assms have "self = self2"
    by (cases r) (auto simp: GeographyRAGSystem_init_def new_embeddings_def)
  ultimately show ?thesis by simp
qed

lemma exec_op_same_object: "exec_op c op self w = (r, self1, w1) \<Longrightarrow> self1 = self"
  by (cases op) (auto split: prod.splits)

lemma reachable_invariant: "reachable c self \<Longrightarrow> chain_has_parts self"
proof (induction rule: reachable.induct)
  case (constructed key w self w1)
  then show ?case by (rule GeographyRAGSystem_init_invariant)
next
  case (operated self op w r self1 w1)
  then show ?case using exec_op_same_object by blast
qed

lemma GeographyRAGSystem_init_no_index:
  assumes "GeographyRAGSystem_init c key w = (Inr self, w1)" and "\<not> os_path_exists ''vector_store'' w"
  shows "vector_store self = None"
proof (cases "hf_embeddings_init c")
  case (Some e)
  with assms show ?thesis by (simp add: GeographyRAGSystem_init_def new_embeddings_def)
next
  case None
  with assms show ?thesis
    by (cases "chat_groq_init c key")
       (auto simp: GeographyRAGSystem_init_def new_embeddings_def initialize_components_def
                   os_path_exists_def)
qed

text \<open>
  Claim C1, as amended. \<^verbatim>\<open>answer_question\<close> never raises: for every system, question and
  behaviour of the collaborators it returns a string. When the chain call (retrieval and
  completion) raises \<open>e\<close>, the string returned is \<^verbatim>\<open>Error generating answer: \<close> followed by
  the text of \<open>e\<close>, and the chain was called once. The string is an error report that
  carries the exception's own text, not an apology fixed in the source.
\<close>

theorem answerer_catches_collaborator_errors:
  "(\<exists>s. fst (answer_question c self question w) = Inr s) \<and>
   (qa_chain self = Some chain \<and> retrieval_qa_call c chain question = Inl e \<longrightarrow>
      answer_question c self question w =
        (Inr (''Error generating answer: '' @ str e), log_call (Call_qa_chain chain question) w))"
proof (intro conjI impI)
  show "\<exists>s. fst (answer_question c self question w) = Inr s"
    using answer_question_returns[of c self question w] by auto
next
  assume "qa_chain self = Some chain \<and> retrieval_qa_call c chain question = Inl e"
  then show "answer_question c self question w =
        (Inr (''Error generating answer: '' @ str e), log_call (Call_qa_chain chain question) w)"
    by (simp add: answer_question_def)
qed

theorem answerer_catches_collaborator_errors_witness:
  "qa_chain ready_system = Some (RetrievalQA sample_llm sample_store 4) \<and>
   retrieval_qa_call
     (working_collaborators\<lparr>retrieval_qa_call := (\<lambda>chain question. Inl (PyException ''rate limit''))\<rparr>)
     (RetrievalQA sample_llm sample_store 4) ''What is a river?'' = Inl (PyException ''rate limit'') \<and>
   answer_question
     (working_collaborators\<lparr>retrieval_qa_call := (\<lambda>chain question. Inl (PyException ''rate limit''))\<rparr>)
     ready_system ''What is a river?'' indexed_world =
     (Inr ''Error generating answer: rate limit'',
      log_call (Call_qa_chain (RetrievalQA sample_llm sample_store 4) ''What is a river?'') indexed_world)"
  using answerer_catches_collaborator_errors
    [of "working_collaborators\<lparr>retrieval_qa_call := (\<lambda>chain question. Inl (PyException ''rate limit''))\<rparr>"
        ready_system "''What is a river?''" indexed_world "RetrievalQA sample_llm sample_store 4"
        "PyException ''rate limit''"]
  by (simp add: ready_system_def)

text \<open>
  Claim C1 as first stated, that the string returned on a collaborator error is a
  user-facing apology, fails. With a chain that raises \<^verbatim>\<open>rate limit\<close> the answer is that raw
  text behind the prefix, with one that raises \<^verbatim>\<open>Invalid API Key\<close> it is another string,
  and neither is the apology the function returns when it has no chain.
\<close>

theorem answerer_returns_raw_error_counterexample:
  "fst (answer_question rate_limited_collaborators ready_system ''What is a river?'' indexed_world)
     = Inr ''Error generating answer: rate limit'' \<and>
   fst (answer_question invalid_key_collaborators ready_system ''What is a river?'' indexed_world)
     = Inr ''Error generating answer: Invalid API Key'' \<and>
   fst (answer_question rate_limited_collaborators ready_system ''What is a river?'' indexed_world)
     \<noteq> fst (answer_question invalid_key_collaborators ready_system ''What is a river?'' indexed_world) \<and>
   fst (answer_question rate_limited_collaborators ready_system ''What is a river?'' indexed_world)
     \<noteq> Inr ''Sorry, the system is not properly initialized. Please check if the vector store exists.''"
  by (simp add: answer_question_def rate_limited_collaborators_def invalid_key_collaborators_def
        ready_system_def)

text \<open>
  Claim C2. Retrieval never raises, in either class. When the vector store is unset it
  returns the empty list and leaves the world as it was (no collaborator is called,
  nothing is printed), for every query and every \<open>k\<close>. A system constructed while the
  index directory does not exist has no vector store, so its retrieval is empty too.
\<close>

theorem retrieval_without_index_is_empty:
  "(\<exists>docs. fst (retrieve_relevant_documents c self query k w) = Inr docs) \<and>
   (\<exists>texts. fst (retrieve_relevant_documents_1 c self1 query k w) = Inr texts) \<and>
   (vector_store self = None \<longrightarrow> retrieve_relevant_documents c self query k w = (Inr [], w)) \<and>
   (vector_store_1 self1 = None \<longrightarrow> retrieve_relevant_documents_1 c self1 query k w = (Inr [], w)) \<and>
   (\<not> os_path_exists ''vector_store'' w0 \<and> GeographyRAGSystem_init c key w0 = (Inr built, w1) \<longrightarrow>
      retrieve_relevant_documents c built query k w = (Inr [], w))"
proof (intro conjI impI)
  show "\<exists>docs. fst (retrieve_relevant_documents c self query k w) = Inr docs"
    using retrieve_relevant_documents_returns[of c self query k w] by auto
  show "\<exists>texts. fst (retrieve_relevant_documents_1 c self1 query k w) = Inr texts"
    using retrieve_relevant_documents_1_returns[of c self1 query k w] by auto
  show "retrieve_relevant_documents c self query k w = (Inr [], w)" if "vector_store self = None"
    using that by (simp add: retrieve_relevant_documents_def)
  show "retrieve_relevant_documents_1 c self1 query k w = (Inr [], w)" if "vector_store_1 self1 = None"
    using that by (simp add: retrieve_relevant_documents_1_def)
  show "retrieve_relevant_documents c built query k w = (Inr [], w)"
    if "\<not> os_path_exists ''vector_store'' w0 \<and> GeographyRAGSystem_init c key w0 = (Inr built, w1)"
  proof -
    from that have "vector_store built = None"
      using GeographyRAGSystem_init_no_index by blast
    then show ?thesis by (simp add: retrieve_relevant_documents_def)
  qed
qed

theorem retrieval_without_index_is_empty_witness:
  "vector_store unready_system = None \<and>
   retrieve_relevant_documents working_collaborators unready_system ''What is a river?'' 4 empty_world
     = (Inr [], empty_world) \<and>
   vector_store_1 unready_system_1 = None \<and>
   retrieve_relevant_documents_1 working_collaborators unready_system_1 ''What is a river?'' 3 empty_world
     = (Inr [], empty_world) \<and>
   \<not> os_path_exists ''vector_store'' empty_world \<and>
   fst (GeographyRAGSystem_init working_collaborators ''key'' empty_world) = Inr unready_system"
  using retrieval_without_index_is_empty
    [of working_collaborators unready_system "''What is a river?''" 4 empty_world unready_system_1]
        retrieval_without_index_is_empty
    [of working_collaborators unready_system "''What is a river?''" 3 empty_world unready_system_1]
  by (simp add: unready_system_def unready_system_1_def ready_system_def sample_llm_def
        GeographyRAGSystem_init_def new_embeddings_def initialize_components_def
        os_path_exists_def working_collaborators_def empty_world_def log_call_def)

text \<open>
  Claim C6. When the chain returns a completion, \<^verbatim>\<open>answer_question\<close> returns that text
  followed by two newlines and the sentence
  \<^verbatim>\<open>*This answer is based on NCERT Class 10 Geography textbook content.*\<close> if the chain
  reports at least one source document, and that text alone otherwise (no documents, or
  no \<^verbatim>\<open>source_documents\<close> key). The two answers differ.
\<close>

theorem answer_is_completion_with_provenance:
  assumes "qa_chain self = Some chain"
      and "retrieval_qa_call c chain question = Inr res"
      and "result_key res = Some completion"
  shows "fst (answer_question c self question w) =
           Inr (if (case source_documents_key res of None \<Rightarrow> [] | Some docs \<Rightarrow> docs) \<noteq> []
                then completion @ [CHR 0x0A, CHR 0x0A] @
                     ''*This answer is based on NCERT Class 10 Geography textbook content.*''
                else completion) \<and>
         ((case source_documents_key res of None \<Rightarrow> [] | Some docs \<Rightarrow> docs) \<noteq> [] \<longleftrightarrow>
            fst (answer_question c self question w) \<noteq> Inr completion)"
  using assms by (simp add: answer_question_def provenance_sentence_def Let_def)

theorem answer_is_completion_with_provenance_witness:
  "fst (answer_question working_collaborators ready_system ''What is a river?'' indexed_world) =
     Inr (''Rivers carry water.'' @ [CHR 0x0A, CHR 0x0A] @
          ''*This answer is based on NCERT Class 10 Geography textbook content.*'') \<and>
   fst (answer_question working_collaborators ready_system ''What is a river?'' indexed_world) \<noteq>
     Inr ''Rivers carry water.'' \<and>
   fst (answer_question
          (working_collaborators\<lparr>retrieval_qa_call := (\<lambda>chain question.
             Inr \<lparr>result_key = Some ''I do not know.'', source_documents_key = Some []\<rparr>)\<rparr>)
          ready_system ''What is a river?'' indexed_world) = Inr ''I do not know.''"
  using answer_is_completion_with_provenance
    [of ready_system "RetrievalQA sample_llm sample_store 4" working_collaborators "''What is a river?''"
        "\<lparr>result_key = Some ''Rivers carry water.'',
          source_documents_key = Some [Document ''Rivers'', Document ''Soils'']\<rparr>"
        "''Rivers carry water.''" indexed_world]
    answer_is_completion_with_provenance
    [of ready_system "RetrievalQA sample_llm sample_store 4"
        "working_collaborators\<lparr>retrieval_qa_call := (\<lambda>chain question.
             Inr \<lparr>result_key = Some ''I do not know.'', source_documents_key = Some []\<rparr>)\<rparr>"
        "''What is a river?''"
        "\<lparr>result_key = Some ''I do not know.'', source_documents_key = Some []\<rparr>"
        "''I do not know.''" indexed_world]
  by (simp add: ready_system_def working_collaborators_def sample_store_def)

text \<open>
  Claim C9. In every state of a system reached by construction and any sequence of
  operations, a chain is present only if a vector store and a language model are, and
  \<^verbatim>\<open>is_ready\<close> holds exactly when the vector store and the chain are both present.
\<close>

theorem chain_invariant_and_readiness:
  assumes "reachable c self"
  shows "(qa_chain self \<noteq> None \<longrightarrow> vector_store self \<noteq> None \<and> llm self \<noteq> None) \<and>
         (is_ready self \<longleftrightarrow> vector_store self \<noteq> None \<and> qa_chain self \<noteq> None)"
  using reachable_invariant[OF assms] by (auto simp: chain_has_parts_def is_ready_def)

lemma ready_system_constructed:
  "GeographyRAGSystem_init working_collaborators ''key'' indexed_world =
     (Inr ready_system,
      indexed_world\<lparr>calls := [Call_HuggingFaceEmbeddings, Call_ChatGroq ''key'',
         Call_FAISS_load_local ''vector_store'',
         Call_RetrievalQA_from_chain_type sample_llm sample_store]\<rparr>)"
  by (simp add: GeographyRAGSystem_init_def new_embeddings_def initialize_components_def
        create_qa_chain_def os_path_exists_def working_collaborators_def indexed_world_def
        ready_system_def sample_llm_def sample_store_def log_call_def)

theorem chain_invariant_and_readiness_witness:
  "reachable working_collaborators ready_system \<and>
   qa_chain ready_system \<noteq> None \<and> vector_store ready_system \<noteq> None \<and> llm ready_system \<noteq> None \<and>
   is_ready ready_system"
proof -
  have r: "reachable working_collaborators ready_system"
    by (rule reachable.constructed[OF ready_system_constructed])
  from chain_invariant_and_readiness[OF r] r show ?thesis
    by (simp add: ready_system_def)
qed

text \<open>
  Claim C10. With no chain, \<^verbatim>\<open>answer_question\<close> returns the fixed message and leaves the
  world as it found it: the call log is unchanged, so no collaborator was called.
\<close>

theorem unset_chain_gives_fixed_message:
  assumes "qa_chain self = None"
  shows "answer_question c self question w =
           (Inr ''Sorry, the system is not properly initialized. Please check if the vector store exists.'', w)"
  using assms by (simp add: answer_question_def not_initialized_message_def)

theorem unset_chain_gives_fixed_message_witness:
  "qa_chain unready_system = None \<and>
   answer_question working_collaborators unready_system ''What is a river?'' empty_world =
     (Inr ''Sorry, the system is not properly initialized. Please check if the vector store exists.'',
      empty_world)"
  using unset_chain_gives_fixed_message[of unready_system working_collaborators "''What is a river?''" empty_world]
  by (simp add: unready_system_def)

section \<open>The index build\<close>

lemma split_text_into_chunks_frame:
  "split_text_into_chunks c self t w = (r, w1) \<Longrightarrow>
     fs w1 = fs w \<and> page w1 = page w \<and> query_calls w1 = query_calls w"
  by (auto simp: split_text_into_chunks_def Let_def split: sum.splits)

lemma create_vector_store_frame:
  "create_vector_store c self documents w = (r, w1) \<Longrightarrow>
     fs w1 = fs w \<and> page w1 = page w \<and> query_calls w1 = query_calls w"
  by (auto simp: create_vector_store_def Let_def split: sum.splits)

lemma create_vector_store_result:
  "create_vector_store c self documents w = (r, w1) \<Longrightarrow>
     (case faiss_from_documents c documents (dp_embeddings self) of
        Inl e \<Rightarrow> r = Inr None
      | Inr vs \<Rightarrow> r = Inr (Some vs))"
  by (auto simp: create_vector_store_def Let_def split: sum.splits)

lemma save_vector_store_returns:
  "\<exists>w1. save_vector_store c self vs save_path w = (Inr (), w1)"
  by (cases "faiss_save_local c vs save_path (fs w)"; cases "fst (faiss_save_local c vs save_path (fs w))")
     (auto simp: save_vector_store_def Let_def)

lemma save_vector_store_frame:
  "save_vector_store c self vs save_path w = (r, w1) \<Longrightarrow>
     page w1 = page w \<and> query_calls w1 = query_calls w"
  by (cases "faiss_save_local c vs save_path (fs w)"; cases "fst (faiss_save_local c vs save_path (fs w))")
     (auto simp: save_vector_store_def Let_def)

text \<open>What \<^verbatim>\<open>process_document\<close> does once the text is extracted and split.\<close>

lemma process_document_after_split:
  assumes ex: "extract_text_from_pdf c self (print ''Extracting text from PDF...'' w) = (Inr t, w1)"
      and ne: "t \<noteq> []"
      and sp: "splitter_split_text c (chunk_size self) (chunk_overlap self) t = Inr chunks"
      and build: "create_vector_store c self (map Document chunks)
           (print ''Creating vector store...''
             (print (''Created '' @ str_nat (length chunks) @ '' chunks'')
               (log_call (Call_split_text (chunk_size self) (chunk_overlap self) t)
                 (print ''Splitting text into chunks...'' w1)))) = (Inr built, w6)"
  shows "process_document c self save_flag w =
      (case built of
         None \<Rightarrow> (Inr None, self\<lparr>dp_vector_store := None\<rparr>, w6)
       | Some vs \<Rightarrow>
           if save_flag
           then (Inr (Some vs), self\<lparr>dp_vector_store := Some vs\<rparr>,
                 snd (save_vector_store c self vs ''vector_store'' w6))
           else (Inr (Some vs), self\<lparr>dp_vector_store := Some vs\<rparr>, w6))"
proof (cases built)
  case None
  with ex ne sp build show ?thesis
    by (simp add: process_document_def split_text_into_chunks_def Let_def)
next
  case (Some vs)
  obtain w7 where "save_vector_store c self vs ''vector_store'' w6 = (Inr (), w7)"
    using save_vector_store_returns by blast
  with Some ex ne sp build show ?thesis
    by (simp add: process_document_def split_text_into_chunks_def Let_def)
qed

lemma process_document_writes_only_on_success:
  assumes changed: "fs (snd (snd (process_document c self save_flag w))) \<noteq> fs w"
  shows "save_flag \<and> (\<exists>t chunks vs.
           splitter_split_text c (chunk_size self) (chunk_overlap self) t = Inr chunks \<and>
           faiss_from_documents c (map Document chunks) (dp_embeddings self) = Inr vs \<and>
           fst (process_document c self save_flag w) = Inr (Some vs))"
proof -
  let ?w0 = "print ''Extracting text from PDF...'' w"
  obtain t w1 where ex: "extract_text_from_pdf c self ?w0 = (Inr t, w1)"
    using extract_text_from_pdf_returns by blast
  from extract_text_from_pdf_frame[OF ex] have fs1: "fs w1 = fs w" by simp
  have ne: "t \<noteq> []"
  proof
    assume "t = []"
    with ex have "process_document c self save_flag w = (Inr None, self, print ''No text extracted from PDF'' w1)"
      by (simp add: process_document_def)
    with fs1 changed show False by simp
  qed
  let ?w3 = "log_call (Call_split_text (chunk_size self) (chunk_overlap self) t)
                 (print ''Splitting text into chunks...'' w1)"
  show ?thesis
  proof (cases "splitter_split_text c (chunk_size self) (chunk_overlap self) t")
    case (Inl e)
    with ex ne have "process_document c self save_flag w = (Inl e, self, ?w3)"
      by (simp add: process_document_def split_text_into_chunks_def Let_def)
    with fs1 changed show ?thesis by simp
  next
    case (Inr chunks)
    let ?w5 = "print ''Creating vector store...''
             (print (''Created '' @ str_nat (length chunks) @ '' chunks'') ?w3)"
    obtain rb w6 where build: "create_vector_store c self (map Document chunks) ?w5 = (rb, w6)"
      by (cases "create_vector_store c self (map Document chunks) ?w5")
    from create_vector_store_frame[OF build] fs1 have fs6: "fs w6 = fs w" by simp
    from create_vector_store_result[OF build]
    have res: "case faiss_from_documents c (map Document chunks) (dp_embeddings self) of
                 Inl e \<Rightarrow> rb = Inr None | Inr vs \<Rightarrow> rb = Inr (Some vs)" .
    then obtain built where rb: "rb = Inr built" by (auto split: sum.splits)
    note run = process_document_after_split[OF ex ne Inr build[unfolded rb], of save_flag]
    show ?thesis
    proof (cases built)
      case None
      with run fs6 changed show ?thesis by simp
    next
      case (Some vs)
      with res rb have ok: "faiss_from_documents c (map Document chunks) (dp_embeddings self) = Inr vs"
        by (auto split: sum.splits)
      from Some run fs6 changed have "save_flag" by (auto split: if_splits)
      moreover from Some run have "fst (process_document c self save_flag w) = Inr (Some vs)"
        by (simp split: if_splits)
      ultimately show ?thesis using Inr ok by blast
    qed
  qed
qed

lemma process_document_build_failure:
  assumes ex: "fst (extract_text_from_pdf c self (print ''Extracting text from PDF...'' w)) = Inr t"
      and ne: "t \<noteq> []"
      and sp: "splitter_split_text c (chunk_size self) (chunk_overlap self) t = Inr chunks"
      and fail: "faiss_from_documents c (map Document chunks) (dp_embeddings self) = Inl e"
  shows "fst (process_document c self save_flag w) = Inr None \<and>
         fs (snd (snd (process_document c self save_flag w))) = fs w \<and>
         dp_vector_store (fst (snd (process_document c self save_flag w))) = None"
proof -
  let ?w0 = "print ''Extracting text from PDF...'' w"
  obtain w1 where ex1: "extract_text_from_pdf c self ?w0 = (Inr t, w1)"
    using ex by (cases "extract_text_from_pdf c self ?w0") simp
  from extract_text_from_pdf_frame[OF ex1] have fs1: "fs w1 = fs w" by simp
  let ?w5 = "print ''Creating vector store...''
             (print (''Created '' @ str_nat (length chunks) @ '' chunks'')
               (log_call (Call_split_text (chunk_size self) (chunk_overlap self) t)
                 (print ''Splitting text into chunks...'' w1)))"
  obtain rb w6 where build: "create_vector_store c self (map Document chunks) ?w5 = (rb, w6)"
    by (cases "create_vector_store c self (map Document chunks) ?w5")
  from create_vector_store_frame[OF build] fs1 have fs6: "fs w6 = fs w" by simp
  from create_vector_store_result[OF build] fail have rb: "rb = Inr None" by simp
  from process_document_after_split[OF ex1 ne sp build[unfolded rb], of save_flag] fs6
  show ?thesis by simp
qed

text \<open>
  Claim C4. The index build is all-or-nothing. When the text is extracted and split and
  the construction of the FAISS store over the segments raises, \<^verbatim>\<open>process_document\<close>
  returns \<^verbatim>\<open>None\<close> and the file system is as it was. Conversely, whenever
  \<^verbatim>\<open>process_document\<close> leaves the file system changed, saving was asked for and the value
  returned is the store that the collaborator built over all the segments of the split.
\<close>

theorem index_build_all_or_nothing:
  "(fst (extract_text_from_pdf c self (print ''Extracting text from PDF...'' w)) = Inr t \<and>
    t \<noteq> [] \<and>
    splitter_split_text c (chunk_size self) (chunk_overlap self) t = Inr chunks \<and>
    faiss_from_documents c (map Document chunks) (dp_embeddings self) = Inl e \<longrightarrow>
      fst (process_document c self save_flag w) = Inr None \<and>
      fs (snd (snd (process_document c self save_flag w))) = fs w) \<and>
   (fs (snd (snd (process_document c self save_flag w))) \<noteq> fs w \<longrightarrow>
      save_flag \<and>
      (\<exists>t' chunks' vs.
         splitter_split_text c (chunk_size self) (chunk_overlap self) t' = Inr chunks' \<and>
         faiss_from_documents c (map Document chunks') (dp_embeddings self) = Inr vs \<and>
         fst (process_document c self save_flag w) = Inr (Some vs)))"
  using process_document_build_failure[of c self w t chunks e save_flag]
        process_document_writes_only_on_success[of c self save_flag w]
  by blast

text \<open>A build whose embedding service is down, and a build that succeeds and is saved.\<close>

theorem index_build_all_or_nothing_witness:
  "fst (extract_text_from_pdf
          (working_collaborators\<lparr>faiss_from_documents :=
             (\<lambda>docs emb. Inl (PyException ''embedding service down''))\<rparr>)
          sample_processor (print ''Extracting text from PDF...'' empty_world))
     = Inr (''Rivers'' @ [CHR 0x0A] @ ''Soils'' @ [CHR 0x0A]) \<and>
   fst (process_document
          (working_collaborators\<lparr>faiss_from_documents :=
             (\<lambda>docs emb. Inl (PyException ''embedding service down''))\<rparr>)
          sample_processor True empty_world) = Inr None \<and>
   fs (snd (snd (process_document
          (working_collaborators\<lparr>faiss_from_documents :=
             (\<lambda>docs emb. Inl (PyException ''embedding service down''))\<rparr>)
          sample_processor True empty_world))) = fs empty_world \<and>
   fs (snd (snd (process_document working_collaborators sample_processor True empty_world)))
     \<noteq> fs empty_world \<and>
   fst (process_document working_collaborators sample_processor True empty_world)
     = Inr (Some (FAISS [Document (''Rivers'' @ [CHR 0x0A]), Document (''Soils'' @ [CHR 0x0A])]))"
proof -
  let ?c = "working_collaborators\<lparr>faiss_from_documents :=
             (\<lambda>docs emb. Inl (PyException ''embedding service down''))\<rparr>"
  let ?t = "''Rivers'' @ [CHR 0x0A] @ ''Soils'' @ [CHR 0x0A]"
  have ex: "fst (extract_text_from_pdf ?c sample_processor (print ''Extracting text from PDF...'' empty_world)) = Inr ?t"
    by (simp add: extract_text_from_pdf_def working_collaborators_def sample_processor_def Let_def)
  have sp: "splitter_split_text ?c (chunk_size sample_processor) (chunk_overlap sample_processor) ?t
      = Inr [''Rivers'' @ [CHR 0x0A], ''Soils'' @ [CHR 0x0A]]"
    by (simp add: working_collaborators_def)
  have fail: "faiss_from_documents ?c (map Document [''Rivers'' @ [CHR 0x0A], ''Soils'' @ [CHR 0x0A]])
       (dp_embeddings sample_processor) = Inl (PyException ''embedding service down'')"
    by simp
  have written: "fs (snd (snd (process_document working_collaborators sample_processor True empty_world)))
     \<noteq> fs empty_world"
  proof
    assume "fs (snd (snd (process_document working_collaborators sample_processor True empty_world)))
       = fs empty_world"
    then have "fs (snd (snd (process_document working_collaborators sample_processor True empty_world))) ''vector_store''
       = fs empty_world ''vector_store''" by simp
    then show False
      by (simp add: process_document_def extract_text_from_pdf_def split_text_into_chunks_def
            create_vector_store_def save_vector_store_def working_collaborators_def
            sample_processor_def empty_world_def Let_def)
  qed
  have built: "fst (process_document working_collaborators sample_processor True empty_world)
     = Inr (Some (FAISS [Document (''Rivers'' @ [CHR 0x0A]), Document (''Soils'' @ [CHR 0x0A])]))"
    by (simp add: process_document_def extract_text_from_pdf_def split_text_into_chunks_def
            create_vector_store_def save_vector_store_def working_collaborators_def
            sample_processor_def empty_world_def Let_def)
  from index_build_all_or_nothing[of ?c sample_processor empty_world ?t
         "[''Rivers'' @ [CHR 0x0A], ''Soils'' @ [CHR 0x0A]]" "PyException ''embedding service down''" True]
       ex sp fail
  have "fst (process_document ?c sample_processor True empty_world) = Inr None \<and>
        fs (snd (snd (process_document ?c sample_processor True empty_world))) = fs empty_world"
    by simp
  with ex written built show ?thesis by simp
qed

section \<open>Setting up leaves the query log and the history alone\<close>

lemma process_document_frame:
  assumes run: "process_document c self save_flag w = (r, self1, w1)"
  shows "query_calls w1 = query_calls w"
proof -
  let ?w0 = "print ''Extracting text from PDF...'' w"
  obtain t w2 where ex: "extract_text_from_pdf c self ?w0 = (Inr t, w2)"
    using extract_text_from_pdf_returns by blast
  from extract_text_from_pdf_frame[OF ex] have q2: "query_calls w2 = query_calls w" by simp
  show ?thesis
  proof (cases "t = []")
    case True
    with ex run q2 show ?thesis by (auto simp: process_document_def)
  next
    case ne: False
    let ?w3 = "log_call (Call_split_text (chunk_size self) (chunk_overlap self) t)
                 (print ''Splitting text into chunks...'' w2)"
    show ?thesis
    proof (cases "splitter_split_text c (chunk_size self) (chunk_overlap self) t")
      case (Inl e)
      with ex ne have "process_document c self save_flag w = (Inl e, self, ?w3)"
        by (simp add: process_document_def split_text_into_chunks_def Let_def)
      with run q2 show ?thesis by auto
    next
      case (Inr chunks)
      let ?w5 = "print ''Creating vector store...''
             (print (''Created '' @ str_nat (length chunks) @ '' chunks'') ?w3)"
      obtain rb w6 where build: "create_vector_store c self (map Document chunks) ?w5 = (rb, w6)"
        by (cases "create_vector_store c self (map Document chunks) ?w5")
      from create_vector_store_frame[OF build] q2 have q6: "query_calls w6 = query_calls w" by simp
      from create_vector_store_result[OF build]
      obtain built where rb: "rb = Inr built" by (auto split: sum.splits)
      note shape = process_document_after_split[OF ex ne Inr build[unfolded rb], of save_flag]
      show ?thesis
      proof (cases built)
        case None
        with shape run q6 show ?thesis by auto
      next
        case (Some vs)
        obtain r7 w7 where save: "save_vector_store c self vs ''vector_store'' w6 = (r7, w7)"
          by (cases "save_vector_store c self vs ''vector_store'' w6")
        from save_vector_store_frame[OF save] q6 have "query_calls w7 = query_calls w" by simp
        with Some shape run q6 save show ?thesis by (auto split: if_splits)
      qed
    qed
  qed
qed

lemma new_embeddings_frame:
  "new_embeddings c w = (r, w1) \<Longrightarrow> query_calls w1 = query_calls w"
  by (cases "hf_embeddings_init c") (auto simp: new_embeddings_def Let_def)

lemma DocumentProcessor_init_frame:
  assumes "DocumentProcessor_init c path csize coverlap w = (r, w1)"
  shows "query_calls w1 = query_calls w"
proof -
  obtain r0 w0 where emb: "new_embeddings c w = (r0, w0)" by (cases "new_embeddings c w")
  from new_embeddings_frame[OF emb] have "query_calls w0 = query_calls w" .
  with assms emb show ?thesis
    by (cases r0) (auto simp: DocumentProcessor_init_def)
qed

lemma create_qa_chain_frame:
  "create_qa_chain c self w = (r, self1, w1) \<Longrightarrow> query_calls w1 = query_calls w"
  by (cases "vector_store self"; cases "llm self";
      cases "retrieval_qa_from_chain_type c (the (llm self)) (the (vector_store self))")
     (auto simp: create_qa_chain_def Let_def)

lemma initialize_components_frame:
  assumes "initialize_components c self w = (r, self1, w1)"
  shows "query_calls w1 = query_calls w"
proof (cases "chat_groq_init c (api_key self)")
  case (Some e)
  with assms show ?thesis by (auto simp: initialize_components_def)
next
  case None
  let ?w1 = "log_call (Call_ChatGroq (api_key self)) w"
  let ?self1 = "self\<lparr>llm := Some (ChatGroq (api_key self) ''openai/gpt-oss-20b'')\<rparr>"
  show ?thesis
  proof (cases "os_path_exists ''vector_store'' ?w1")
    case False
    with None assms show ?thesis by (auto simp: initialize_components_def)
  next
    case True
    let ?w2 = "log_call (Call_FAISS_load_local ''vector_store'') ?w1"
    show ?thesis
    proof (cases "faiss_load_local c ''vector_store'' (embeddings ?self1) (fs ?w2)")
      case (Inl e)
      with None True assms show ?thesis by (auto simp: initialize_components_def)
    next
      case (Inr vs)
      obtain r2 self2 w2 where run:
        "create_qa_chain c (?self1\<lparr>vector_store := Some vs\<rparr>) ?w2 = (r2, self2, w2)"
        by (cases "create_qa_chain c (?self1\<lparr>vector_store := Some vs\<rparr>) ?w2")
      from create_qa_chain_frame[OF run] have "query_calls w2 = query_calls w" by simp
      with None True Inr run assms show ?thesis
        by (cases r2) (auto simp: initialize_components_def Let_def)
    qed
  qed
qed

lemma GeographyRAGSystem_init_frame:
  assumes "GeographyRAGSystem_init c key w = (r, w1)"
  shows "query_calls w1 = query_calls w"
proof -
  obtain r0 w0 where emb: "new_embeddings c w = (r0, w0)" by (cases "new_embeddings c w")
  from new_embeddings_frame[OF emb] have q0: "query_calls w0 = query_calls w" .
  show ?thesis
  proof (cases r0)
    case (Inl e)
    with assms emb q0 show ?thesis by (auto simp: GeographyRAGSystem_init_def)
  next
    case (Inr em)
    let ?self0 = "\<lparr>api_key = key, embeddings = em, vector_store = None, llm = None, qa_chain = None\<rparr>"
    obtain r2 self2 w2 where run: "initialize_components c ?self0 w0 = (r2, self2, w2)"
      by (cases "initialize_components c ?self0 w0")
    from initialize_components_frame[OF run] q0 have "query_calls w2 = query_calls w" by simp
    with assms emb Inr run show ?thesis
      by (cases r2) (auto simp: GeographyRAGSystem_init_def)
  qed
qed

text \<open>The last step of \<^verbatim>\<open>setup_rag_system\<close>, in both of its branches.\<close>

lemma setup_initialize_frame:
  assumes "(case GeographyRAGSystem_init c key w of
              (Inl e, w2) \<Rightarrow> (Inl e, s, w2)
            | (Inr rag, w2) \<Rightarrow> (Inr (Some rag), s, w2)) = (r, s1, w1)"
  shows "query_calls w1 = query_calls w \<and> s1 = s"
proof -
  obtain r0 w0 where run: "GeographyRAGSystem_init c key w = (r0, w0)"
    by (cases "GeographyRAGSystem_init c key w")
  from GeographyRAGSystem_init_frame[OF run] have "query_calls w0 = query_calls w" .
  with assms run show ?thesis by (cases r0) auto
qed

lemma setup_rag_system_frame:
  assumes run: "setup_rag_system c s w = (r, s1, w1)"
  shows "query_calls w1 = query_calls w \<and> chat_history s1 = chat_history s \<and>
         current_question s1 = current_question s \<and> rag_system s1 = rag_system s"
proof -
  let ?init = "\<lambda>s1 w1. case GeographyRAGSystem_init c ''your key'' w1 of
              (Inl e, w2) \<Rightarrow> (Inl e, s1, w2)
            | (Inr rag, w2) \<Rightarrow> (Inr (Some rag), s1, w2)"
  let ?handler = "\<lambda>e (s2, w4). (Inr None, s2, render (St_error (''Error setting up RAG system: '' @ str e)) w4)"
  let ?s = "s\<lparr>vector_store_ready := True\<rparr>"
  have handled: "query_calls w1 = query_calls w \<and> chat_history s1 = chat_history s \<and>
         current_question s1 = current_question s \<and> rag_system s1 = rag_system s"
    if body: "try_except (rb, sb, wb) ?handler = (r, s1, w1)"
      and fr: "query_calls wb = query_calls w" "chat_history sb = chat_history s"
        "current_question sb = current_question s" "rag_system sb = rag_system s"
    for rb :: "geography_rag_system option outcome" and sb wb
    using body fr by (cases rb) auto
  show ?thesis
  proof (cases "os_path_exists ''vector_store'' w")
    case True
    obtain rb sb wb where b: "?init ?s w = (rb, sb, wb)" by (cases "?init ?s w")
    from setup_initialize_frame[OF b] have fr: "query_calls wb = query_calls w" "sb = ?s" by simp_all
    from True run b have tr: "try_except (rb, sb, wb) ?handler = (r, s1, w1)"
      by (simp add: setup_rag_system_def Let_def)
    show ?thesis by (rule handled[OF tr]) (simp_all add: fr)
  next
    case False
    let ?w1 = "render (St_warning ''Vector store not found. Processing document...'') w"
    obtain rp wp where dp: "DocumentProcessor_init c pdf_file 1000 200 ?w1 = (rp, wp)"
      by (cases "DocumentProcessor_init c pdf_file 1000 200 ?w1")
    from DocumentProcessor_init_frame[OF dp] have qp: "query_calls wp = query_calls w" by simp
    show ?thesis
    proof (cases rp)
      case (Inl e)
      with False run dp have tr: "try_except (Inl e, s, wp) ?handler = (r, s1, w1)"
        by (simp add: setup_rag_system_def Let_def)
      show ?thesis by (rule handled[OF tr]) (simp_all add: qp)
    next
      case (Inr processor)
      obtain rd pd wd where pr: "process_document c processor True wp = (rd, pd, wd)"
        by (cases "process_document c processor True wp")
      from process_document_frame[OF pr] qp have qd: "query_calls wd = query_calls w" by simp
      show ?thesis
      proof (cases rd)
        case (Inl e)
        with False run dp Inr pr have tr: "try_except (Inl e, s, wd) ?handler = (r, s1, w1)"
          by (simp add: setup_rag_system_def Let_def)
        show ?thesis by (rule handled[OF tr]) (simp_all add: qd)
      next
        case built: (Inr b)
        show ?thesis
        proof (cases b)
          case None
          with False run dp Inr pr built
          have tr: "try_except (Inr None, s, render (St_error ''Failed to process document.'') wd) ?handler
                  = (r, s1, w1)"
            by (auto simp add: setup_rag_system_def Let_def)
          show ?thesis by (rule handled[OF tr]) (simp_all add: qd)
        next
          case (Some vs)
          let ?w3 = "render (St_success ''Document processed successfully!'') wd"
          obtain rb sb wb where b: "?init ?s ?w3 = (rb, sb, wb)" by (cases "?init ?s ?w3")
          from setup_initialize_frame[OF b] qd have fr: "query_calls wb = query_calls w" "sb = ?s" by simp_all
          from False run dp Inr pr built Some b
          have tr: "try_except (rb, sb, wb) ?handler = (r, s1, w1)"
            by (simp add: setup_rag_system_def Let_def)
          show ?thesis by (rule handled[OF tr]) (simp_all add: fr)
        qed
      qed
    qed
  qed
qed

section \<open>Runs of the page\<close>

lemma initialize_stored [simp]: "initialize_session_state (stored s) = s"
  by (simp add: initialize_session_state_def stored_def)

lemma press_sample_buttons_fields [simp]:
  "rag_system (press_sample_buttons wd s) = rag_system s"
  "chat_history (press_sample_buttons wd s) = chat_history s"
  "vector_store_ready (press_sample_buttons wd s) = vector_store_ready s"
  by (simp_all add: press_sample_buttons_def sample_questions_def)

lemma press_sample_buttons_released [simp]: "press_sample_buttons (released wd) s = s"
  by (simp add: press_sample_buttons_def sample_questions_def released_def)

lemma fold_render: "fold (\<lambda>x. render (g x)) xs w = w\<lparr>page := page w @ map g xs\<rparr>"
  by (induction xs arbitrary: w) (simp_all add: render_def)

lemma display_chat_history_page: "\<exists>evs. display_chat_history s w = w\<lparr>page := page w @ evs\<rparr>"
proof (cases "chat_history s = []")
  case True
  then have "display_chat_history s w = w\<lparr>page := page w @ []\<rparr>"
    by (simp add: display_chat_history_def)
  then show ?thesis by blast
next
  case False
  then show ?thesis
    by (simp add: display_chat_history_def Let_def split_def fold_render) blast
qed

text \<open>The statistics, the topics and the history that end a run of the main interface.\<close>

lemma main_interface_idle:
  assumes "\<not> clear_button wd" and "\<not> ask_button wd"
  shows "\<exists>evs. main_interface c wd rag s w =
           (Inr Returned, s\<lparr>current_question := None\<rparr>,
            w\<lparr>page := page w @ St_metric_questions_asked (length (chat_history s)) #
                 St_metric_vector_store_status (vector_store_ready s) #
                 map St_topic (take 6 (get_topic_suggestions rag)) @ evs\<rparr>) \<and>
           (chat_history s = [] \<longrightarrow> evs = [])"
proof -
  let ?w7 = "fold (\<lambda>topic. render (St_topic topic)) (take 6 (get_topic_suggestions rag))
              (render (St_metric_vector_store_status (vector_store_ready s))
                (render (St_metric_questions_asked (length (chat_history s))) w))"
  have w7: "?w7 = w\<lparr>page := page w @ St_metric_questions_asked (length (chat_history s)) #
                 St_metric_vector_store_status (vector_store_ready s) #
                 map St_topic (take 6 (get_topic_suggestions rag))\<rparr>"
    by (simp add: fold_render render_def)
  show ?thesis
  proof (cases "chat_history s = []")
    case True
    with assms w7 have "main_interface c wd rag s w =
           (Inr Returned, s\<lparr>current_question := None\<rparr>,
            w\<lparr>page := page w @ St_metric_questions_asked (length (chat_history s)) #
                 St_metric_vector_store_status (vector_store_ready s) #
                 map St_topic (take 6 (get_topic_suggestions rag)) @ []\<rparr>)"
      by (simp add: main_interface_def Let_def)
    then show ?thesis by blast
  next
    case False
    obtain evs where "display_chat_history (s\<lparr>current_question := None\<rparr>) ?w7 = ?w7\<lparr>page := page ?w7 @ evs\<rparr>"
      using display_chat_history_page by blast
    with False assms w7 have "main_interface c wd rag s w =
           (Inr Returned, s\<lparr>current_question := None\<rparr>,
            w\<lparr>page := page w @ St_metric_questions_asked (length (chat_history s)) #
                 St_metric_vector_store_status (vector_store_ready s) #
                 map St_topic (take 6 (get_topic_suggestions rag)) @ evs\<rparr>)"
      by (simp add: main_interface_def Let_def)
    with False show ?thesis by blast
  qed
qed

lemma main_interface_clear:
  "clear_button wd \<Longrightarrow>
     main_interface c wd rag s w = (Inr Rerun, s\<lparr>current_question := None, chat_history := []\<rparr>, w)"
  by (simp add: main_interface_def Let_def)

lemma main_interface_blank:
  assumes blank: "strip (question_of wd s) = []"
      and run: "main_interface c wd rag s w = (r, s1, w1)"
  shows "calls w1 = calls w \<and> fs w1 = fs w \<and>
         (chat_history s1 = chat_history s \<or> chat_history s1 = []) \<and>
         (ask_button wd \<and> \<not> clear_button wd \<longrightarrow>
            St_warning ''Please enter a question first!'' \<in> set (page w1))"
proof (cases "clear_button wd")
  case True
  with run show ?thesis by (auto simp: main_interface_clear)
next
  case nc: False
  show ?thesis
  proof (cases "ask_button wd")
    case False
    from main_interface_idle[OF nc False, of c rag s w] run False show ?thesis by auto
  next
    case True
    let ?w4 = "render (St_warning ''Please enter a question first!'') w"
    let ?s3 = "s\<lparr>current_question := None\<rparr>"
    let ?w7 = "fold (\<lambda>topic. render (St_topic topic)) (take 6 (get_topic_suggestions rag))
              (render (St_metric_vector_store_status (vector_store_ready ?s3))
                (render (St_metric_questions_asked (length (chat_history ?s3))) ?w4))"
    have w7: "?w7 = ?w4\<lparr>page := page ?w4 @ St_metric_questions_asked (length (chat_history s)) #
                 St_metric_vector_store_status (vector_store_ready s) #
                 map St_topic (take 6 (get_topic_suggestions rag))\<rparr>"
      by (simp add: fold_render render_def)
    obtain evs where d: "display_chat_history ?s3 ?w7 = ?w7\<lparr>page := page ?w7 @ evs\<rparr>"
      using display_chat_history_page by blast
    from nc True blank run
    have "s1 = ?s3 \<and> w1 = (if chat_history ?s3 \<noteq> [] then display_chat_history ?s3 ?w7 else ?w7)"
      by (auto simp: main_interface_def Let_def)
    then have "s1 = ?s3" and "w1 = ?w7 \<or> w1 = ?w7\<lparr>page := page ?w7 @ evs\<rparr>"
      using d by (auto split: if_splits)
    then show ?thesis using w7 by (auto simp: render_def query_calls_def)
  qed
qed

lemma dropWhile_all: "(\<forall>x\<in>set (dropWhile P xs). P x) \<longleftrightarrow> (\<forall>x\<in>set xs. P x)"
proof
  assume all: "\<forall>x\<in>set (dropWhile P xs). P x"
  have "dropWhile P xs = []"
  proof (rule ccontr)
    assume ne: "dropWhile P xs \<noteq> []"
    then have "\<not> P (hd (dropWhile P xs))" by (rule hd_dropWhile)
    moreover from ne have "hd (dropWhile P xs) \<in> set (dropWhile P xs)" by simp
    ultimately show False using all by blast
  qed
  then show "\<forall>x\<in>set xs. P x" by (simp add: dropWhile_eq_Nil_conv)
next
  assume "\<forall>x\<in>set xs. P x"
  then show "\<forall>x\<in>set (dropWhile P xs). P x" by (auto dest: set_dropWhileD)
qed

lemma strip_blank_iff: "strip s = [] \<longleftrightarrow> (\<forall>ch\<in>set s. isspace ch)"
  by (simp add: strip_def dropWhile_all)

lemma question_of_cong:
  "current_question s1 = current_question s \<Longrightarrow> question_of wd s1 = question_of wd s"
  by (simp add: question_of_def default_question_def)

lemma main_blank:
  assumes blank: "strip (question_of wd (press_sample_buttons wd (initialize_session_state ss))) = []"
      and run: "main c wd ss w = (r, s1, w1)"
  shows "query_calls w1 = query_calls w \<and>
         (rag_system (initialize_session_state ss) \<noteq> None \<longrightarrow> calls w1 = calls w \<and> fs w1 = fs w) \<and>
         (chat_history s1 = chat_history (initialize_session_state ss) \<or> chat_history s1 = []) \<and>
         (ask_button wd \<and> \<not> clear_button wd \<and> rag_system s1 \<noteq> None \<longrightarrow>
            St_warning ''Please enter a question first!'' \<in> set (page w1))"
proof -
  let ?s0 = "initialize_session_state ss"
  let ?s1 = "press_sample_buttons wd ?s0"
  show ?thesis
  proof (cases "rag_system ?s1")
    case (Some rag)
    with run have mi: "main_interface c wd rag ?s1 w = (r, s1, w1)"
      by (simp add: main_def Let_def)
    from main_interface_blank[OF blank mi] show ?thesis
      by (auto simp: query_calls_def)
  next
    case None
    obtain rs s' w' where st: "setup_rag_system c ?s1 w = (rs, s', w')"
      by (cases "setup_rag_system c ?s1 w")
    from setup_rag_system_frame[OF st]
    have q': "query_calls w' = query_calls w" and h': "chat_history s' = chat_history ?s0"
      and cq: "current_question s' = current_question ?s1"
      and rg: "rag_system s' = rag_system ?s0"
      by simp_all
    from None have none0: "rag_system ?s0 = None" by simp
    show ?thesis
    proof (cases rs)
      case (Inl e)
      with None st run have "r = Inl e" "s1 = s'" "w1 = w'"
        by (simp_all add: main_def Let_def)
      with q' h' none0 rg show ?thesis by simp
    next
      case (Inr built)
      let ?s2 = "s'\<lparr>rag_system := built\<rparr>"
      show ?thesis
      proof (cases built)
        case nb: None
        with None st Inr run
        have "s1 = ?s2" "w1 = render (St_error ''Failed to initialize the AI tutor. Please check the setup.'') w'"
          by (simp_all add: main_def Let_def)
        with q' h' none0 nb show ?thesis by simp
      next
        case (Some rag)
        with None st Inr run have mi: "main_interface c wd rag ?s2 w' = (r, s1, w1)"
          by (simp add: main_def Let_def)
        have "question_of wd ?s2 = question_of wd ?s1"
          by (rule question_of_cong) (simp add: cq)
        with blank have "strip (question_of wd ?s2) = []" by simp
        from main_interface_blank[OF this mi] q' h' none0 show ?thesis
          by (auto simp: query_calls_def)
      qed
    qed
  qed
qed

lemma question_of_blank_iff:
  "strip (question_of wd s) = [] \<longleftrightarrow>
     strip (question_input wd) = [] \<and> strip (default_question s) = []"
  by (auto simp: question_of_def strip_def)

text \<open>
  Claim C5. The query a run submits is the variable \<^verbatim>\<open>question\<close> of \<^verbatim>\<open>main\<close>: the text area,
  or the pending sample question when the text area is blank (\<open>question_of\<close>). When it is
  empty or consists of whitespace only, the run makes no retrieval and no completion call
  (no collaborator call at all when the session already holds a system), appends nothing
  to the history (the history is as it was, or emptied by the clear button), and, when
  the ask button was pressed and the run was not stopped by the clear button, shows the
  warning that asks for a question.
\<close>

theorem blank_query_is_rejected:
  assumes "\<forall>ch\<in>set (question_of wd (press_sample_buttons wd (initialize_session_state ss))). isspace ch"
  shows "query_calls (snd (snd (main c wd ss w))) = query_calls w \<and>
         (rag_system (initialize_session_state ss) \<noteq> None \<longrightarrow>
            calls (snd (snd (main c wd ss w))) = calls w) \<and>
         (chat_history (fst (snd (main c wd ss w))) = chat_history (initialize_session_state ss) \<or>
          chat_history (fst (snd (main c wd ss w))) = []) \<and>
         (ask_button wd \<and> \<not> clear_button wd \<and> rag_system (fst (snd (main c wd ss w))) \<noteq> None \<longrightarrow>
            St_warning ''Please enter a question first!'' \<in> set (page (snd (snd (main c wd ss w)))))"
proof -
  from assms
  have blank: "strip (question_of wd (press_sample_buttons wd (initialize_session_state ss))) = []"
    by (simp add: strip_blank_iff)
  obtain r s1 w1 where run: "main c wd ss w = (r, s1, w1)"
    by (cases "main c wd ss w")
  from main_blank[OF blank run] run show ?thesis by simp
qed

text \<open>A space and a tab submitted in a ready session with one entry in its history.\<close>

theorem blank_query_is_rejected_witness:
  "question_of blank_submission
       (press_sample_buttons blank_submission (initialize_session_state ready_session))
     = [CHR 0x20, CHR 0x09] \<and>
   isspace (CHR 0x20) \<and> isspace (CHR 0x09) \<and>
   calls (snd (snd (main working_collaborators blank_submission ready_session indexed_world)))
     = calls indexed_world \<and>
   chat_history (fst (snd (main working_collaborators blank_submission ready_session indexed_world)))
     = [(''What is soil?'', ''Soil is the upper layer of the earth.'')] \<and>
   St_warning ''Please enter a question first!''
     \<in> set (page (snd (snd (main working_collaborators blank_submission ready_session indexed_world))))"
proof -
  let ?s1 = "press_sample_buttons blank_submission (initialize_session_state ready_session)"
  have wd: "ask_button blank_submission" "\<not> clear_button blank_submission"
    "question_input blank_submission = [CHR 0x20, CHR 0x09]"
    by (simp_all add: blank_submission_def no_widgets_def)
  have st: "rag_system (initialize_session_state ready_session) = Some ready_system"
    "chat_history (initialize_session_state ready_session)
       = [(''What is soil?'', ''Soil is the upper layer of the earth.'')]"
    "current_question (initialize_session_state ready_session) = None"
    by (simp_all add: initialize_session_state_def ready_session_def)
  have cq: "current_question ?s1 = None"
    by (simp add: press_sample_buttons_def sample_questions_def blank_submission_def no_widgets_def st)
  have q: "question_of blank_submission ?s1 = [CHR 0x20, CHR 0x09]"
    by (simp add: question_of_def default_question_def cq wd)
  have blank: "\<forall>ch\<in>set (question_of blank_submission ?s1). isspace ch"
    unfolding q by (simp add: isspace_def)
  then have stripped: "strip (question_of blank_submission ?s1) = []"
    by (simp add: strip_blank_iff)
  have run: "main working_collaborators blank_submission ready_session indexed_world =
     main_interface working_collaborators blank_submission ready_system ?s1 indexed_world"
    by (simp add: main_def Let_def st)
  have kept: "chat_history (fst (snd (main working_collaborators blank_submission ready_session indexed_world))) \<noteq> []"
    unfolding run by (simp add: main_interface_def Let_def wd stripped st)
  have rg: "rag_system (fst (snd (main working_collaborators blank_submission ready_session indexed_world))) \<noteq> None"
    unfolding run by (simp add: main_interface_def Let_def wd stripped st)
  have sp: "isspace (CHR 0x20)" "isspace (CHR 0x09)"
    by (simp_all add: isspace_def)
  from blank_query_is_rejected[OF blank, of working_collaborators indexed_world] st kept rg wd q sp
  show ?thesis by simp
qed

text \<open>
  Claim C7. The clear button exists once the session holds a system object. Pressing it
  (the run that clears and asks for a rerun, and the rerun) ends with an empty history
  and a displayed count of zero, and with the same system object (so the same loaded
  vector store and the same \<^verbatim>\<open>is_ready\<close>), the same \<^verbatim>\<open>vector_store_ready\<close> flag, the same
  file system, no collaborator call and nothing printed.
\<close>

theorem clearing_history_changes_only_history:
  assumes "rag_system_key ss = Some (Some rag)" and "clear_button wd"
  shows "fst (run_script c wd ss w) = Inr Returned \<and>
         chat_history (fst (snd (run_script c wd ss w))) = [] \<and>
         page (snd (snd (run_script c wd ss w))) =
           St_metric_questions_asked 0 #
           St_metric_vector_store_status (vector_store_ready (initialize_session_state ss)) #
           map St_topic (take 6 (get_topic_suggestions rag)) \<and>
         rag_system (fst (snd (run_script c wd ss w))) = Some rag \<and>
         vector_store_ready (fst (snd (run_script c wd ss w)))
           = vector_store_ready (initialize_session_state ss) \<and>
         fs (snd (snd (run_script c wd ss w))) = fs w \<and>
         calls (snd (snd (run_script c wd ss w))) = calls w \<and>
         stdout (snd (snd (run_script c wd ss w))) = stdout w"
proof -
  let ?s1 = "press_sample_buttons wd (initialize_session_state ss)"
  let ?s = "?s1\<lparr>current_question := None, chat_history := []\<rparr>"
  let ?w0 = "w\<lparr>page := []\<rparr>"
  from assms(1) have rg: "rag_system ?s1 = Some rag"
    by (simp add: initialize_session_state_def)
  have ready: "vector_store_ready ?s1 = vector_store_ready (initialize_session_state ss)" by simp
  from rg assms(2) have first: "main c wd ss ?w0 = (Inr Rerun, ?s, ?w0)"
    by (simp add: main_def Let_def main_interface_clear)
  have rel: "\<not> clear_button (released wd)" "\<not> ask_button (released wd)"
    by (simp_all add: released_def)
  from main_interface_idle[OF rel, of c rag ?s ?w0]
  have idle: "main_interface c (released wd) rag ?s ?w0 =
           (Inr Returned, ?s\<lparr>current_question := None\<rparr>,
            ?w0\<lparr>page := page ?w0 @ St_metric_questions_asked (length (chat_history ?s)) #
                 St_metric_vector_store_status (vector_store_ready ?s) #
                 map St_topic (take 6 (get_topic_suggestions rag)) @ []\<rparr>)"
    by auto
  from rg have second: "main c (released wd) (stored ?s) ?w0 = main_interface c (released wd) rag ?s ?w0"
    by (simp add: main_def Let_def)
  have "run_script c wd ss w = main_interface c (released wd) rag ?s ?w0"
    by (simp add: run_script_def first second)
  with idle rg ready show ?thesis by simp
qed

text \<open>The clear button pressed in a ready session with one entry in its history.\<close>

theorem clearing_history_changes_only_history_witness:
  "rag_system_key ready_session = Some (Some ready_system) \<and>
   clear_button clear_click \<and>
   chat_history (initialize_session_state ready_session) \<noteq> [] \<and>
   chat_history (fst (snd (run_script working_collaborators clear_click
       ready_session indexed_world))) = [] \<and>
   rag_system (fst (snd (run_script working_collaborators clear_click
       ready_session indexed_world))) = Some ready_system \<and>
   fs (snd (snd (run_script working_collaborators clear_click
       ready_session indexed_world))) = fs indexed_world"
  using clearing_history_changes_only_history
    [of ready_session ready_system clear_click working_collaborators indexed_world]
  by (simp add: ready_session_def clear_click_def no_widgets_def initialize_session_state_def)

end
